theory Spec2Isabelle
  imports Complex_Main "HOL-Library.Sublist"
begin

section \<open>Host values: strings, numbers and dates\<close>

text \<open>
  The plugin is TypeScript running inside a note-taking host. Strings are modelled as
  \<^typ>\<open>string\<close>, holding the UTF-8 bytes of the text: every pattern the plugin matches
  and every padding it adds is ASCII, so positions inside non-ASCII text never matter.
  Numbers that are indices, years or milliseconds are \<^typ>\<open>int\<close>.
\<close>

subsection \<open>\<open>String(n)\<close> and \<open>padStart\<close>\<close>

definition digit_char :: "nat \<Rightarrow> char" where
  "digit_char d = ''0123456789'' ! d"

function digits_of :: "nat \<Rightarrow> string" where
  "digits_of n = (if n < 10 then [digit_char n] else digits_of (n div 10) @ [digit_char (n mod 10)])"
  by pat_completeness auto
termination
  by (relation "measure id") auto

declare digits_of.simps [simp del]

text \<open>\<open>String(n)\<close> for an integral number \<open>n\<close>.\<close>

definition String :: "int \<Rightarrow> string" where
  "String n = (if n < 0 then CHR ''-'' # digits_of (nat (- n)) else digits_of (nat n))"

text \<open>\<open>s.padStart(n, c)\<close> with a one-character filler.\<close>

definition padStart :: "nat \<Rightarrow> char \<Rightarrow> string \<Rightarrow> string" where
  "padStart n c s = replicate (n - length s) c @ s"

subsection \<open>\<open>s.replace(/pat/g, rep)\<close> for a literal pattern\<close>

text \<open>
  Every regular expression of the plugin is a literal token between doubled braces, and no
  replacement text it passes contains a dollar sign, so a global replace is the
  left-to-right replacement of the non-overlapping occurrences of the token; replaced
  text is not scanned again.
\<close>

function replaceAll :: "string \<Rightarrow> string \<Rightarrow> string \<Rightarrow> string" where
  "replaceAll pat rep [] = []"
| "replaceAll pat rep (c # cs) =
     (if pat \<noteq> [] \<and> prefix pat (c # cs)
      then rep @ replaceAll pat rep (drop (length pat) (c # cs))
      else c # replaceAll pat rep cs)"
  by pat_completeness auto
termination
  by (relation "measure (\<lambda>(pat, rep, s). length s)") (auto simp: neq_Nil_conv)

subsection \<open>The host's \<open>Date\<close>\<close>

text \<open>
  A \<open>Date\<close> is given by its local calendar fields, the values its getters return
  (\<open>getMonth\<close> counts from 0). The time zone is a function from a local date to the
  minutes by which local time is ahead of UTC at that moment, so that daylight-saving
  rules are covered. The calendar is the proleptic Gregorian one of the language standard.
\<close>

record js_date =
  getFullYear :: int
  getMonth :: int
  getDate :: int
  getHours :: int
  getMinutes :: int
  getSeconds :: int
  getMilliseconds :: int

type_synonym timezone = "js_date \<Rightarrow> int"

text \<open>\<open>new Date(year, monthIndex, day)\<close>: local midnight of that day.\<close>

definition Date_ymd :: "int \<Rightarrow> int \<Rightarrow> int \<Rightarrow> js_date" where
  "Date_ymd y m d =
     \<lparr>getFullYear = y, getMonth = m, getDate = d, getHours = 0, getMinutes = 0,
      getSeconds = 0, getMilliseconds = 0\<rparr>"

text \<open>Days from 1970-01-01 to the civil date \<open>y\<close>-\<open>m\<close>-\<open>d\<close> (\<open>m\<close> from 1), and back.\<close>

definition days_from_civil :: "int \<Rightarrow> int \<Rightarrow> int \<Rightarrow> int" where
  "days_from_civil y m d =
     (let y' = (if m \<le> 2 then y - 1 else y);
          era = y' div 400;
          yoe = y' - era * 400;
          doy = (153 * (if m > 2 then m - 3 else m + 9) + 2) div 5 + d - 1;
          doe = yoe * 365 + yoe div 4 - yoe div 100 + doy
      in era * 146097 + doe - 719468)"

definition civil_from_days :: "int \<Rightarrow> int \<times> int \<times> int" where
  "civil_from_days z =
     (let z' = z + 719468;
          era = z' div 146097;
          doe = z' - era * 146097;
          yoe = (doe - doe div 1460 + doe div 36524 - doe div 146096) div 365;
          doy = doe - (365 * yoe + yoe div 4 - yoe div 100);
          mp = (5 * doy + 2) div 153;
          d = doy - (153 * mp + 2) div 5 + 1;
          m = (if mp < 10 then mp + 3 else mp - 9);
          y = yoe + era * 400
      in (if m \<le> 2 then y + 1 else y, m, d))"

definition dayNumber :: "js_date \<Rightarrow> int" where
  "dayNumber d = days_from_civil (getFullYear d) (getMonth d + 1) (getDate d)"

definition msOfDay :: "js_date \<Rightarrow> int" where
  "msOfDay d = ((getHours d * 60 + getMinutes d) * 60 + getSeconds d) * 1000 + getMilliseconds d"

text \<open>\<open>getTime()\<close>: milliseconds since the epoch, an instant independent of the zone.\<close>

definition getTime :: "timezone \<Rightarrow> js_date \<Rightarrow> int" where
  "getTime tz d = dayNumber d * 86400000 + msOfDay d - tz d * 60000"

text \<open>\<open>getDay()\<close>: the local weekday, Sunday is 0; 1970-01-01 was a Thursday.\<close>

definition getDay :: "js_date \<Rightarrow> int" where
  "getDay d = (dayNumber d + 4) mod 7"

text \<open>
  \<open>toISOString().slice(0, 10)\<close>: the first ten characters of the UTC rendering of the
  instant. Years outside 0..9999 are written with a sign and six digits.
\<close>

definition isoYear :: "int \<Rightarrow> string" where
  "isoYear y =
     (if 0 \<le> y \<and> y \<le> 9999 then padStart 4 CHR ''0'' (String y)
      else (if y < 0 then CHR ''-'' else CHR ''+'') # padStart 6 CHR ''0'' (String \<bar>y\<bar>))"

definition toISOString_date :: "timezone \<Rightarrow> js_date \<Rightarrow> string" where
  "toISOString_date tz d =
     (case civil_from_days (getTime tz d div 86400000) of
        (y, m, dd) \<Rightarrow>
          take 10 (isoYear y @ ''-'' @ padStart 2 CHR ''0'' (String m) @ ''-'' @
                   padStart 2 CHR ''0'' (String dd)))"

section \<open>Title Formatter\<close>

text \<open>The weekday names of \<open>chineseWeekdays\<close>, Sunday first, as UTF-8.\<close>

definition chineseWeekdays :: "string list" where
  "chineseWeekdays =
     [[CHR 0xE6, CHR 0x97, CHR 0xA5], [CHR 0xE4, CHR 0xB8, CHR 0x80],
      [CHR 0xE4, CHR 0xBA, CHR 0x8C], [CHR 0xE4, CHR 0xB8, CHR 0x89],
      [CHR 0xE5, CHR 0x9B, CHR 0x9B], [CHR 0xE4, CHR 0xBA, CHR 0x94],
      [CHR 0xE5, CHR 0x85, CHR 0xAD]]"

text \<open>
  The week number of \<open>formatTitle\<close>: \<open>pastDaysOfYear\<close> is the time elapsed since local
  midnight of January 1, in days, a fraction when \<open>now\<close> is not a midnight.
\<close>

definition pastDaysOfYear :: "timezone \<Rightarrow> js_date \<Rightarrow> rat" where
  "pastDaysOfYear tz now =
     of_int (getTime tz now - getTime tz (Date_ymd (getFullYear now) 0 1)) / 86400000"

definition weekNum :: "timezone \<Rightarrow> js_date \<Rightarrow> int" where
  "weekNum tz now =
     \<lceil>(pastDaysOfYear tz now + of_int (getDay (Date_ymd (getFullYear now) 0 1)) + 1) / 7\<rceil>"

definition today_local :: "js_date \<Rightarrow> string" where
  "today_local now =
     String (getFullYear now) @ ''-'' @ padStart 2 CHR ''0'' (String (getMonth now + 1)) @ ''-'' @
     padStart 2 CHR ''0'' (String (getDate now))"

definition formatTitle :: "timezone \<Rightarrow> js_date \<Rightarrow> string \<Rightarrow> string" where
  "formatTitle tz now format =
     (if format = [] then []
      else
        let year = getFullYear now;
            month = padStart 2 CHR ''0'' (String (getMonth now + 1));
            day = padStart 2 CHR ''0'' (String (getDate now));
            date = String year @ ''-'' @ month @ ''-'' @ day;
            quarter = (getMonth now + 3) div 3;
            week = padStart 2 CHR ''0'' (String (weekNum tz now));
            weekday = chineseWeekdays ! nat (getDay now);
            result = format;
            result = replaceAll ''{{date}}'' date result;
            result = replaceAll ''{{year}}'' (String year) result;
            result = replaceAll ''{{quarter}}'' (String quarter) result;
            result = replaceAll ''{{month}}'' month result;
            result = replaceAll ''{{week}}'' week result;
            result = replaceAll ''{{weekday}}'' weekday result;
            result = replaceAll ''{{day}}'' day result
        in result)"

section \<open>Host containers\<close>

subsection \<open>Arrays\<close>

text \<open>\<open>xs[i]\<close>: \<open>undefined\<close> (here \<open>None\<close>) outside the array.\<close>

definition elemAt :: "'a list \<Rightarrow> int \<Rightarrow> 'a option" where
  "elemAt xs i = (if 0 \<le> i \<and> i < int (length xs) then Some (xs ! nat i) else None)"

text \<open>\<open>a % b\<close>: the remainder takes the sign of the dividend.\<close>

definition js_rem :: "int \<Rightarrow> int \<Rightarrow> int" where
  "js_rem a b = sgn a * (\<bar>a\<bar> mod \<bar>b\<bar>)"

text \<open>
  \<open>xs.sort(cmp)\<close>: a stable sort by a comparator that returns a negative number, zero or
  a positive number. For a comparator that is a total preorder on the elements, every
  stable sort returns this list.
\<close>

fun insortBy :: "('a \<Rightarrow> 'a \<Rightarrow> int) \<Rightarrow> 'a \<Rightarrow> 'a list \<Rightarrow> 'a list" where
  "insortBy cmp x [] = [x]"
| "insortBy cmp x (y # ys) = (if cmp x y \<le> 0 then x # y # ys else y # insortBy cmp x ys)"

definition sortBy :: "('a \<Rightarrow> 'a \<Rightarrow> int) \<Rightarrow> 'a list \<Rightarrow> 'a list" where
  "sortBy cmp xs = foldr (insortBy cmp) xs []"

subsection \<open>Objects used as records of string keys, and \<open>Map\<close>\<close>

text \<open>
  An object with string keys, and a \<open>Map\<close>, is the list of its entries in insertion
  order, each key once. Assigning to a key that is present replaces its value in place;
  a new key goes to the end.
\<close>

type_synonym 'v js_object = "(string \<times> 'v) list"

definition obj_get :: "'v js_object \<Rightarrow> string \<Rightarrow> 'v option" where
  "obj_get obj k = map_of obj k"

fun obj_set :: "string \<Rightarrow> 'v \<Rightarrow> 'v js_object \<Rightarrow> 'v js_object" where
  "obj_set k v [] = [(k, v)]"
| "obj_set k v ((k', v') # rest) =
     (if k' = k then (k, v) # rest else (k', v') # obj_set k v rest)"

text \<open>
  \<open>Object.keys\<close> lists the keys that are array indices first (canonical decimal numbers
  below \<open>2^32 - 1\<close>), in ascending numeric order, then the other keys in insertion order.
  A \<open>Map\<close> iterates in insertion order.
\<close>

definition isDigit :: "char \<Rightarrow> bool" where
  "isDigit c = (c \<in> set ''0123456789'')"

definition digitsValue :: "string \<Rightarrow> int" where
  "digitsValue s = foldl (\<lambda>a c. 10 * a + (of_char c - 48)) 0 s"

definition isArrayIndex :: "string \<Rightarrow> bool" where
  "isArrayIndex s =
     (s \<noteq> [] \<and> list_all isDigit s \<and> (hd s \<noteq> CHR ''0'' \<or> s = ''0'') \<and>
      digitsValue s < 4294967295)"

definition Object_keys :: "'v js_object \<Rightarrow> string list" where
  "Object_keys obj =
     (let ks = map fst obj
      in sort_key digitsValue (filter isArrayIndex ks) @ filter (\<lambda>k. \<not> isArrayIndex k) ks)"

definition Object_entries :: "'v js_object \<Rightarrow> (string \<times> 'v) list" where
  "Object_entries obj =
     concat (map (\<lambda>k. case obj_get obj k of None \<Rightarrow> [] | Some v \<Rightarrow> [(k, v)]) (Object_keys obj))"

text \<open>\<open>{...a, ...b}\<close>: the entries of \<open>a\<close>, then those of \<open>b\<close>, assigned into a new object.\<close>

definition spread2 :: "'v js_object \<Rightarrow> 'v js_object \<Rightarrow> 'v js_object" where
  "spread2 a b =
     fold (\<lambda>(k, v). obj_set k v) (Object_entries b) (fold (\<lambda>(k, v). obj_set k v) (Object_entries a) [])"

section \<open>Data model\<close>

text \<open>
  A file or folder of the vault as the host hands it out: \<open>TFile path name basename\<close> and
  \<open>TFolder path name children\<close>.
\<close>

datatype abstract_file =
    TFile string string string
  | TFolder string string "abstract_file list"

text \<open>
  A note's text, seen as the host's front-matter interface sees it: the parsed front
  matter and the body below it. Reading a file and creating another from what was read
  hands this value over unchanged.
\<close>

datatype fm_value = FmString string | FmNumber int | FmBool bool | FmNull | FmList "fm_value list"

record file_content =
  frontmatter :: "string \<rightharpoonup> fm_value"
  body :: string

text \<open>
  The per-template configuration and the persisted settings (both variants' fields). The
  settings are keyed by file paths, none of which is taken to be the name of a property
  that every object inherits.
\<close>

record template_settings =
  name :: string
  targetFolder :: "string option"
  dateFields :: "bool js_object option"
  titleFormat :: "string option"
  isCommandRegistered :: "bool option"

definition new_template_settings :: "string \<Rightarrow> template_settings" where
  "new_template_settings n =
     \<lparr>name = n, targetFolder = None, dateFields = None, titleFormat = None,
      isCommandRegistered = None\<rparr>"

record TinyTemplatesSettings =
  templateFolder :: string
  templates :: "string \<rightharpoonup> template_settings"

record template_info =
  path :: string
  category :: string

text \<open>What the plugin tells the user, one constructor per message.\<close>

datatype notice =
    TemplateFolderMissing string
  | TemplateMissing string
  | TemplateSettingsMissing string
  | TargetFolderUnset string
  | TargetFolderMissing string
  | CreateFailed
  | FileCreated string

text \<open>
  The host around the plugin: lookup of files and folders by path, the text of each file,
  the persisted settings, the notices shown and the files opened in tabs.
\<close>

record world =
  files :: "string \<rightharpoonup> abstract_file"
  contents :: "string \<rightharpoonup> file_content"
  settings :: TinyTemplatesSettings
  notices :: "notice list"
  openedFiles :: "string list"

text \<open>
  What the plugin does not control: the time zone, the clock readings taken while a title
  is formatted and while front matter is patched, the collation behind
  \<open>localeCompare(_, 'zh-CN')\<close>, and whether a host call of the instantiation throws.
\<close>

record host =
  zone :: timezone
  titleNow :: js_date
  patchNow :: js_date
  localeCompare :: "string \<Rightarrow> string \<Rightarrow> int"
  readThrows :: bool
  createThrows :: bool
  patchThrows :: bool
  openThrows :: bool

text \<open>
  The picker modal. \<open>modal_templates\<close> is the field \<open>templates\<close> of the class (the settings
  have a field of that name too); \<open>sortedCategories\<close> exists in the newer variant only.
\<close>

record TinyTemplatesModal =
  modal_templates :: "template_info js_object"
  selectedTemplate :: "string option"
  currentCategoryIndex :: int
  currentTemplateIndex :: int
  categorizedTemplates :: "string list js_object"
  sortedCategories :: "string list"
  closed :: bool

definition new_modal :: TinyTemplatesModal where
  "new_modal =
     \<lparr>modal_templates = [], selectedTemplate = None, currentCategoryIndex = 0,
      currentTemplateIndex = 0, categorizedTemplates = [], sortedCategories = [],
      closed = False\<rparr>"

text \<open>The settings page keeps two maps of its own.\<close>

record TinyTemplatesSettingTab =
  templateFolders :: "string list js_object"
  tab_templates :: "template_info js_object"

text \<open>The date-fields dialog: \<open>pending\<close> is its field \<open>dateFields\<close>, the toggles changed so far.\<close>

record DateFieldsModal =
  templatePath :: string
  templateName :: string
  pending :: "bool js_object"

section \<open>Folder Scanner\<close>

text \<open>
  Both scans make sure that the settings hold a record for the file found and refresh its
  \<open>name\<close>.
\<close>

definition registerTemplate :: "string \<Rightarrow> string \<Rightarrow> TinyTemplatesSettings \<Rightarrow> TinyTemplatesSettings" where
  "registerTemplate childPath childBasename s =
     s\<lparr>templates := (templates s)(childPath \<mapsto>
        (case templates s childPath of
           None \<Rightarrow> new_template_settings childBasename
         | Some ts \<Rightarrow> ts\<lparr>name := childBasename\<rparr>))\<rparr>"

text \<open>
  \<open>TinyTemplatesModal.scanFolder\<close>, the same text in both variants. \<open>scanChildren\<close> is its
  loop over \<open>folder.children\<close>; \<open>relativePath\<close> is computed there and never used. A
  subfolder is scanned with its own name as the category.
\<close>

fun scanFolder ::
    "abstract_file \<Rightarrow> string \<Rightarrow> string \<Rightarrow> TinyTemplatesSettings \<times> TinyTemplatesModal \<Rightarrow>
     TinyTemplatesSettings \<times> TinyTemplatesModal"
  and scanChildren ::
    "bool \<Rightarrow> string \<Rightarrow> string \<Rightarrow> abstract_file list \<Rightarrow> TinyTemplatesSettings \<times> TinyTemplatesModal \<Rightarrow>
     TinyTemplatesSettings \<times> TinyTemplatesModal"
where
  "scanFolder (TFolder p n cs) cat basePath st =
     scanChildren (p = templateFolder (fst st)) cat basePath cs st"
| "scanFolder (TFile p n b) cat basePath st = st"
| "scanChildren isTemplateRoot cat basePath [] st = st"
| "scanChildren isTemplateRoot cat basePath (TFolder cp cn ccs # rest) st =
     scanChildren isTemplateRoot cat basePath rest
       (scanFolder (TFolder cp cn ccs) cn basePath st)"
| "scanChildren isTemplateRoot cat basePath (TFile cp cn cb # rest) st =
     scanChildren isTemplateRoot cat basePath rest
       (let templateCategory = (if isTemplateRoot then [] else cat)
        in (registerTemplate cp cb (fst st),
            (snd st)\<lparr>modal_templates :=
               obj_set cp \<lparr>path = cp, category = templateCategory\<rparr> (modal_templates (snd st))\<rparr>))"

text \<open>
  \<open>TinyTemplatesSettingTab.scanFolder\<close>: a subfolder is scanned with the category
  extended by its name; the map of templates is keyed by \<open>basename\<close>.
\<close>

fun scanFolder_tab ::
    "abstract_file \<Rightarrow> string \<Rightarrow> string list \<Rightarrow> TinyTemplatesSettings \<times> TinyTemplatesSettingTab \<Rightarrow>
     TinyTemplatesSettings \<times> TinyTemplatesSettingTab"
  and scanChildren_tab ::
    "bool \<Rightarrow> string \<Rightarrow> string list \<Rightarrow> abstract_file list \<Rightarrow>
     TinyTemplatesSettings \<times> TinyTemplatesSettingTab \<Rightarrow> TinyTemplatesSettings \<times> TinyTemplatesSettingTab"
where
  "scanFolder_tab (TFolder p n cs) cat allFolderPaths st =
     scanChildren_tab (p = templateFolder (fst st)) cat allFolderPaths cs st"
| "scanFolder_tab (TFile p n b) cat allFolderPaths st = st"
| "scanChildren_tab isTemplateRoot cat allFolderPaths [] st = st"
| "scanChildren_tab isTemplateRoot cat allFolderPaths (TFolder cp cn ccs # rest) st =
     scanChildren_tab isTemplateRoot cat allFolderPaths rest
       (let newCategory = (if cat \<noteq> [] then cat @ ''/'' @ cn else cn)
        in scanFolder_tab (TFolder cp cn ccs) newCategory allFolderPaths st)"
| "scanChildren_tab isTemplateRoot cat allFolderPaths (TFile cp cn cb # rest) st =
     scanChildren_tab isTemplateRoot cat allFolderPaths rest
       (let templateCategory = (if isTemplateRoot then [] else cat)
        in (registerTemplate cp cb (fst st),
            (snd st)\<lparr>templateFolders := obj_set cp allFolderPaths (templateFolders (snd st)),
                      tab_templates :=
                        obj_set cb \<lparr>path = cp, category = templateCategory\<rparr> (tab_templates (snd st))\<rparr>))"

section \<open>Category/Template Index\<close>

datatype js_error = TypeError

text \<open>
  Names that every plain object inherits. Reading such a key of \<open>categorizedTemplates\<close>
  that the object does not own yields the inherited value, which is truthy and has no
  \<open>push\<close>: the grouping loop of \<open>loadTemplates\<close> then throws.
\<close>

definition objectPrototypeKeys :: "string list" where
  "objectPrototypeKeys =
     [''constructor'', ''__proto__'', ''hasOwnProperty'', ''isPrototypeOf'',
      ''propertyIsEnumerable'', ''toLocaleString'', ''toString'', ''valueOf'',
      ''__defineGetter__'', ''__defineSetter__'', ''__lookupGetter__'', ''__lookupSetter__'']"

fun groupTemplates ::
    "(string \<times> template_info) list \<Rightarrow> string list js_object \<Rightarrow> js_error + string list js_object" where
  "groupTemplates [] ct = Inr ct"
| "groupTemplates ((tpath, templateInfo) # rest) ct =
     (let c = category templateInfo
      in if c = [] then
           groupTemplates rest
             (obj_set [] ((case obj_get ct [] of None \<Rightarrow> [] | Some ts \<Rightarrow> ts) @ [tpath]) ct)
         else
           (case obj_get ct c of
              None \<Rightarrow>
                if c \<in> set objectPrototypeKeys then Inl TypeError
                else groupTemplates rest (obj_set c [tpath] ct)
            | Some ts \<Rightarrow> groupTemplates rest (obj_set c (ts @ [tpath]) ct)))"

text \<open>\<open>getAbstractFileByPath(p)?.name || ''\<close>\<close>

definition nameAt :: "world \<Rightarrow> string \<Rightarrow> string" where
  "nameAt w p =
     (case files w p of None \<Rightarrow> [] | Some (TFile _ n _) \<Rightarrow> n | Some (TFolder _ n _) \<Rightarrow> n)"

definition nameCompare :: "host \<Rightarrow> world \<Rightarrow> string \<Rightarrow> string \<Rightarrow> int" where
  "nameCompare h w a b = localeCompare h (nameAt w a) (nameAt w b)"

text \<open>The comparator of the category sort.\<close>

definition categoryCompare :: "host \<Rightarrow> string \<Rightarrow> string \<Rightarrow> int" where
  "categoryCompare h a b = (if a = [] then - 1 else if b = [] then 1 else localeCompare h a b)"

definition sortCategories :: "host \<Rightarrow> string list js_object \<Rightarrow> string list" where
  "sortCategories h ct = sortBy (categoryCompare h) (Object_keys ct)"

text \<open>The initial selection: the first template of the first category of \<open>categories\<close>.\<close>

definition selectFirst :: "string list \<Rightarrow> TinyTemplatesModal \<Rightarrow> TinyTemplatesModal" where
  "selectFirst categories m =
     (case categories of
        [] \<Rightarrow> m
      | firstCategory # _ \<Rightarrow>
          (case obj_get (categorizedTemplates m) firstCategory of
             Some (t # _) \<Rightarrow>
               m\<lparr>selectedTemplate := Some t, currentCategoryIndex := 0, currentTemplateIndex := 0\<rparr>
           | _ \<Rightarrow> m))"

text \<open>
  \<open>loadTemplates\<close> of the newer variant stores the sorted list of categories in
  \<open>sortedCategories\<close>; \<open>loadTemplates_main\<close>, of \<open>src/main.ts\<close>, sorts into a local variable and
  stores nothing. An error is the rejection of the promise.
\<close>

definition loadTemplates ::
    "host \<Rightarrow> world \<times> TinyTemplatesModal \<Rightarrow> js_error + world \<times> TinyTemplatesModal" where
  "loadTemplates h st =
     (let w = fst st;
          m = (snd st)\<lparr>modal_templates := [], categorizedTemplates := []\<rparr>;
          tf = templateFolder (settings w)
      in if tf = [] then Inr (w, m)
         else
           (case files w tf of
              Some (TFolder p n cs) \<Rightarrow>
                (let scanned = scanFolder (TFolder p n cs) [] tf (settings w, m);
                     w = w\<lparr>settings := fst scanned\<rparr>;
                     m = snd scanned
                 in case groupTemplates (modal_templates m) [] of
                      Inl e \<Rightarrow> Inl e
                    | Inr grouped \<Rightarrow>
                        (let ct = map (\<lambda>(c, ts). (c, sortBy (nameCompare h w) ts)) grouped;
                             m = m\<lparr>categorizedTemplates := ct,
                                   sortedCategories := sortCategories h ct,
                                   currentCategoryIndex := 0, currentTemplateIndex := 0,
                                   selectedTemplate := None\<rparr>
                         in Inr (w, selectFirst (sortedCategories m) m)))
            | _ \<Rightarrow> Inr (w\<lparr>notices := notices w @ [TemplateFolderMissing tf]\<rparr>, m)))"

definition loadTemplates_main ::
    "host \<Rightarrow> world \<times> TinyTemplatesModal \<Rightarrow> js_error + world \<times> TinyTemplatesModal" where
  "loadTemplates_main h st =
     (let w = fst st;
          m = (snd st)\<lparr>modal_templates := [], categorizedTemplates := []\<rparr>;
          tf = templateFolder (settings w)
      in if tf = [] then Inr (w, m)
         else
           (case files w tf of
              Some (TFolder p n cs) \<Rightarrow>
                (let scanned = scanFolder (TFolder p n cs) [] tf (settings w, m);
                     w = w\<lparr>settings := fst scanned\<rparr>;
                     m = snd scanned
                 in case groupTemplates (modal_templates m) [] of
                      Inl e \<Rightarrow> Inl e
                    | Inr grouped \<Rightarrow>
                        (let ct = map (\<lambda>(c, ts). (c, sortBy (nameCompare h w) ts)) grouped;
                             categories = sortCategories h ct;
                             m = m\<lparr>categorizedTemplates := ct,
                                   currentCategoryIndex := 0, currentTemplateIndex := 0,
                                   selectedTemplate := None\<rparr>
                         in Inr (w, selectFirst categories m)))
            | _ \<Rightarrow> Inr (w\<lparr>notices := notices w @ [TemplateFolderMissing tf]\<rparr>, m)))"

text \<open>
  \<open>renderTemplateList\<close>: the cards in the order drawn, each with the category index, the
  template index and the path it passes to \<open>selectTemplate\<close> when clicked. A path that is
  not a file gets no card. The newer variant walks \<open>sortedCategories\<close>; \<open>src/main.ts\<close> sorts
  the keys again.
\<close>

definition isFile :: "world \<Rightarrow> string \<Rightarrow> bool" where
  "isFile w p = (case files w p of Some (TFile _ _ _) \<Rightarrow> True | _ \<Rightarrow> False)"

definition renderCards ::
    "world \<Rightarrow> string list js_object \<Rightarrow> string list \<Rightarrow> (int \<times> int \<times> string) list" where
  "renderCards w ct categories =
     concat (map (\<lambda>(categoryIndex, c).
        (case obj_get ct c of
           None \<Rightarrow> []
         | Some templatePaths \<Rightarrow>
             filter (\<lambda>(ci, ti, p). isFile w p)
               (map (\<lambda>(templateIndex, tpath). (categoryIndex, templateIndex, tpath))
                  (zip (map int [0..<length templatePaths]) templatePaths))))
       (zip (map int [0..<length categories]) categories))"

definition renderTemplateList :: "world \<Rightarrow> TinyTemplatesModal \<Rightarrow> (int \<times> int \<times> string) list" where
  "renderTemplateList w m = renderCards w (categorizedTemplates m) (sortedCategories m)"

definition renderTemplateList_main ::
    "host \<Rightarrow> world \<Rightarrow> TinyTemplatesModal \<Rightarrow> (int \<times> int \<times> string) list" where
  "renderTemplateList_main h w m =
     renderCards w (categorizedTemplates m) (sortCategories h (categorizedTemplates m))"

section \<open>Selection Cursor\<close>

text \<open>\<open>selectTemplate\<close>, without its work on the page: it sets the cursor and the selection.\<close>

definition selectTemplate ::
    "int \<Rightarrow> int \<Rightarrow> string option \<Rightarrow> TinyTemplatesModal \<Rightarrow> TinyTemplatesModal" where
  "selectTemplate categoryIndex templateIndex tpath m =
     m\<lparr>currentCategoryIndex := categoryIndex, currentTemplateIndex := templateIndex,
       selectedTemplate := tpath\<rparr>"

text \<open>
  \<open>this.categorizedTemplates[categories[i]] || []\<close>: an index outside \<open>categories\<close> reads
  \<open>undefined\<close>, which as a key is the string \<open>undefined\<close>.
\<close>

definition templatesOf :: "string list js_object \<Rightarrow> string list \<Rightarrow> int \<Rightarrow> string list" where
  "templatesOf ct categories i =
     (case obj_get ct (case elemAt categories i of None \<Rightarrow> ''undefined'' | Some c \<Rightarrow> c) of
        None \<Rightarrow> []
      | Some ts \<Rightarrow> ts)"

text \<open>The newer variant: both moves walk \<open>sortedCategories\<close>.\<close>

definition navigateCategory :: "int \<Rightarrow> TinyTemplatesModal \<Rightarrow> TinyTemplatesModal" where
  "navigateCategory direction m =
     (if length (sortedCategories m) = 0 then m
      else
        let currentIndex = currentTemplateIndex m;
            n = int (length (sortedCategories m));
            newCategoryIndex = js_rem (currentCategoryIndex m + direction + n) n;
            newTemplates = templatesOf (categorizedTemplates m) (sortedCategories m) newCategoryIndex
        in if length newTemplates > 0 then
             let templateIndex = min currentIndex (int (length newTemplates) - 1)
             in selectTemplate newCategoryIndex templateIndex (elemAt newTemplates templateIndex) m
           else m)"

definition navigateWithinCategory :: "int \<Rightarrow> TinyTemplatesModal \<Rightarrow> TinyTemplatesModal" where
  "navigateWithinCategory direction m =
     (if length (sortedCategories m) = 0 then m
      else
        let categories = sortedCategories m;
            n = int (length categories);
            currentCategoryTemplates =
              templatesOf (categorizedTemplates m) categories (currentCategoryIndex m);
            newTemplateIndex = currentTemplateIndex m + direction;
            newCategoryIndex = currentCategoryIndex m;
            moved =
              (if newTemplateIndex < 0 then
                 let newCategoryIndex = js_rem (newCategoryIndex - 1 + n) n;
                     prevTemplates = templatesOf (categorizedTemplates m) categories newCategoryIndex
                 in (newCategoryIndex, int (length prevTemplates) - 1)
               else if newTemplateIndex \<ge> int (length currentCategoryTemplates) then
                 (js_rem (newCategoryIndex + 1) n, 0)
               else (newCategoryIndex, newTemplateIndex));
            newTemplates = templatesOf (categorizedTemplates m) categories (fst moved)
        in if length newTemplates > 0 then
             selectTemplate (fst moved) (snd moved) (elemAt newTemplates (snd moved)) m
           else m)"

text \<open>\<open>src/main.ts\<close>: both moves walk \<open>Object.keys(this.categorizedTemplates)\<close>.\<close>

definition navigateCategory_main :: "int \<Rightarrow> TinyTemplatesModal \<Rightarrow> TinyTemplatesModal" where
  "navigateCategory_main direction m =
     (let categories = Object_keys (categorizedTemplates m)
      in if length categories = 0 then m
         else
           let n = int (length categories);
               newCategoryIndex = js_rem (currentCategoryIndex m + direction + n) n;
               newTemplates = templatesOf (categorizedTemplates m) categories newCategoryIndex
           in if length newTemplates > 0 then
                let templateIndex = (if direction < 0 then int (length newTemplates) - 1 else 0)
                in selectTemplate newCategoryIndex templateIndex (elemAt newTemplates templateIndex) m
              else m)"

definition navigateWithinCategory_main :: "int \<Rightarrow> TinyTemplatesModal \<Rightarrow> TinyTemplatesModal" where
  "navigateWithinCategory_main direction m =
     (let categories = Object_keys (categorizedTemplates m)
      in if length categories = 0 then m
         else
           let n = int (length categories);
               currentCategoryTemplates =
                 templatesOf (categorizedTemplates m) categories (currentCategoryIndex m);
               newTemplateIndex = currentTemplateIndex m + direction;
               newCategoryIndex = currentCategoryIndex m;
               moved =
                 (if newTemplateIndex < 0 then
                    let newCategoryIndex = js_rem (newCategoryIndex - 1 + n) n;
                        prevTemplates = templatesOf (categorizedTemplates m) categories newCategoryIndex
                    in (newCategoryIndex, int (length prevTemplates) - 1)
                  else if newTemplateIndex \<ge> int (length currentCategoryTemplates) then
                    (js_rem (newCategoryIndex + 1) n, 0)
                  else (newCategoryIndex, newTemplateIndex));
               newTemplates = templatesOf (categorizedTemplates m) categories (fst moved)
           in if length newTemplates > 0 then
                selectTemplate (fst moved) (snd moved) (elemAt newTemplates (snd moved)) m
              else m)"

text \<open>The four arrow keys registered by \<open>onOpen\<close>, the only callers of the two moves.\<close>

datatype arrow_key = ArrowUp | ArrowDown | ArrowLeft | ArrowRight

fun press :: "arrow_key \<Rightarrow> TinyTemplatesModal \<Rightarrow> TinyTemplatesModal" where
  "press ArrowUp m = navigateCategory (- 1) m"
| "press ArrowDown m = navigateCategory 1 m"
| "press ArrowLeft m = navigateWithinCategory (- 1) m"
| "press ArrowRight m = navigateWithinCategory 1 m"

fun press_main :: "arrow_key \<Rightarrow> TinyTemplatesModal \<Rightarrow> TinyTemplatesModal" where
  "press_main ArrowUp m = navigateCategory_main (- 1) m"
| "press_main ArrowDown m = navigateCategory_main 1 m"
| "press_main ArrowLeft m = navigateWithinCategory_main (- 1) m"
| "press_main ArrowRight m = navigateWithinCategory_main 1 m"

section \<open>Instantiation Engine\<close>

text \<open>The file name used when no title is configured, as UTF-8, with its extension.\<close>

definition placeholderName :: string where
  "placeholderName =
     [CHR 0xE6, CHR 0x9C, CHR 0xAA, CHR 0xE5, CHR 0x91, CHR 0xBD, CHR 0xE5, CHR 0x90, CHR 0x8D] @ ''.md''"

definition notify :: "notice \<Rightarrow> world \<Rightarrow> world" where
  "notify n w = w\<lparr>notices := notices w @ [n]\<rparr>"

text \<open>
  What the host makes of a path when it creates a file: the name is the part after the
  last slash, the base name drops the extension.
\<close>

definition fileNameOf :: "string \<Rightarrow> string" where
  "fileNameOf p = rev (takeWhile (\<lambda>c. c \<noteq> CHR ''/'') (rev p))"

definition baseNameOf :: "string \<Rightarrow> string" where
  "baseNameOf n = (if CHR ''.'' \<in> set n then rev (tl (dropWhile (\<lambda>c. c \<noteq> CHR ''.'') (rev n))) else n)"

text \<open>\<open>vault.create(filePath, content)\<close>, once it is known not to throw.\<close>

definition vault_create :: "string \<Rightarrow> file_content \<Rightarrow> world \<Rightarrow> world" where
  "vault_create filePath content w =
     w\<lparr>files := (files w)(filePath \<mapsto> TFile filePath (fileNameOf filePath) (baseNameOf (fileNameOf filePath))),
       contents := (contents w)(filePath \<mapsto> content)\<rparr>"

text \<open>
  \<open>frontmatter[fieldName] = today\<close> on the plain object the host passes to the callback:
  assigning a string to the key \<open>__proto__\<close> has no effect.
\<close>

definition fm_assign :: "string \<Rightarrow> fm_value \<Rightarrow> (string \<rightharpoonup> fm_value) \<Rightarrow> (string \<rightharpoonup> fm_value)" where
  "fm_assign k v fm = (if k = ''__proto__'' then fm else fm(k \<mapsto> v))"

text \<open>The callback passed to \<open>processFrontMatter\<close>, for a given \<open>today\<close>.\<close>

definition stampDateFields ::
    "string \<Rightarrow> bool js_object \<Rightarrow> (string \<rightharpoonup> fm_value) \<Rightarrow> (string \<rightharpoonup> fm_value)" where
  "stampDateFields today dfs fm =
     fold (\<lambda>(fieldName, shouldAutoSet) fm.
             if shouldAutoSet then fm_assign fieldName (FmString today) fm else fm)
          (Object_entries dfs) fm"

definition processFrontMatter ::
    "string \<Rightarrow> ((string \<rightharpoonup> fm_value) \<Rightarrow> (string \<rightharpoonup> fm_value)) \<Rightarrow> world \<Rightarrow> world" where
  "processFrontMatter filePath fn w =
     (case contents w filePath of
        None \<Rightarrow> w
      | Some c \<Rightarrow> w\<lparr>contents := (contents w)(filePath \<mapsto> c\<lparr>frontmatter := fn (frontmatter c)\<rparr>)\<rparr>)"

text \<open>
  The \<open>try\<close> block of \<open>createFileFromTemplate\<close>. Each host call may throw; creating a file
  at a path that is taken throws; whatever throws, the \<open>catch\<close> shows one notice and
  nothing is undone. \<open>today\<close> is the date string written into the flagged fields, and
  \<open>created\<close> tells whether a notice is shown on success (\<open>src/main.ts\<close> does).
\<close>

definition instantiate ::
    "host \<Rightarrow> string \<Rightarrow> string \<Rightarrow> string \<Rightarrow> string \<Rightarrow> bool js_object \<Rightarrow> bool \<Rightarrow>
     world \<times> TinyTemplatesModal \<Rightarrow> world \<times> TinyTemplatesModal" where
  "instantiate h tpath target fileName today dfs created st =
     (let w = fst st; m = snd st
      in case (if readThrows h then None else contents w tpath) of
           None \<Rightarrow> (notify CreateFailed w, m)
         | Some content \<Rightarrow>
             (let filePath = target @ ''/'' @ fileName
              in if createThrows h \<or> files w filePath \<noteq> None then (notify CreateFailed w, m)
                 else
                   (let w = vault_create filePath content w
                    in if length (Object_keys dfs) > 0 \<and> patchThrows h
                       then (notify CreateFailed w, m)
                       else
                         (let w = (if length (Object_keys dfs) > 0
                                   then processFrontMatter filePath (stampDateFields today dfs) w
                                   else w)
                          in if openThrows h then (notify CreateFailed w, m)
                             else
                               (let w = w\<lparr>openedFiles := openedFiles w @ [filePath]\<rparr>;
                                    w = (if created then notify (FileCreated filePath) w else w)
                                in (w, m\<lparr>closed := True\<rparr>))))))"

text \<open>The checks before the \<open>try\<close> block, the same in both variants.\<close>

definition checkedTemplate ::
    "string \<Rightarrow> world \<Rightarrow> notice + (template_settings \<times> string)" where
  "checkedTemplate tpath w =
     (case files w tpath of
        Some (TFile tp tn tb) \<Rightarrow>
          (case templates (settings w) tpath of
             None \<Rightarrow> Inl (TemplateSettingsMissing tpath)
           | Some templateSettings \<Rightarrow>
               (let target = (case targetFolder templateSettings of None \<Rightarrow> [] | Some f \<Rightarrow> f)
                in if target = [] then Inl (TargetFolderUnset tb)
                   else
                     (case files w target of
                        Some (TFolder _ _ _) \<Rightarrow> Inr (templateSettings, target)
                      | _ \<Rightarrow> Inl (TargetFolderMissing target))))
      | _ \<Rightarrow> Inl (TemplateMissing tpath))"

text \<open>
  \<open>createFileFromTemplate\<close> of the newer variant: the file name comes from the title
  format when one is set and formats to a non-empty title, and the date is the local one.
\<close>

definition createFileFromTemplate ::
    "host \<Rightarrow> string \<Rightarrow> world \<times> TinyTemplatesModal \<Rightarrow> world \<times> TinyTemplatesModal" where
  "createFileFromTemplate h tpath st =
     (case checkedTemplate tpath (fst st) of
        Inl n \<Rightarrow> (notify n (fst st), snd st)
      | Inr (templateSettings, target) \<Rightarrow>
          (let fileName =
                 (case titleFormat templateSettings of
                    None \<Rightarrow> placeholderName
                  | Some fmt \<Rightarrow>
                      if fmt = [] then placeholderName
                      else
                        (let formattedTitle = formatTitle (zone h) (titleNow h) fmt
                         in if formattedTitle \<noteq> [] then formattedTitle @ ''.md''
                            else placeholderName));
               dfs = (case dateFields templateSettings of None \<Rightarrow> [] | Some d \<Rightarrow> d)
           in instantiate h tpath target fileName (today_local (patchNow h))
                dfs False st))"

text \<open>
  \<open>createFileFromTemplate\<close> of \<open>src/main.ts\<close>: the placeholder name always, and the date is
  cut from \<open>toISOString()\<close>, the UTC rendering.
\<close>

definition createFileFromTemplate_main ::
    "host \<Rightarrow> string \<Rightarrow> world \<times> TinyTemplatesModal \<Rightarrow> world \<times> TinyTemplatesModal" where
  "createFileFromTemplate_main h tpath st =
     (case checkedTemplate tpath (fst st) of
        Inl n \<Rightarrow> (notify n (fst st), snd st)
      | Inr (templateSettings, target) \<Rightarrow>
          (let dfs = (case dateFields templateSettings of None \<Rightarrow> [] | Some d \<Rightarrow> d)
           in instantiate h tpath target placeholderName
                (toISOString_date (zone h) (patchNow h)) dfs True st))"

section \<open>Date-field configuration\<close>

text \<open>
  \<open>obj[key] = value\<close> for a boolean on a plain object: the key \<open>__proto__\<close> is not stored.
\<close>

definition obj_assign :: "string \<Rightarrow> bool \<Rightarrow> bool js_object \<Rightarrow> bool js_object" where
  "obj_assign k v obj = (if k = ''__proto__'' then obj else obj_set k v obj)"

text \<open>A toggle of the dialog changes.\<close>

definition onToggle :: "string \<Rightarrow> bool \<Rightarrow> DateFieldsModal \<Rightarrow> DateFieldsModal" where
  "onToggle fieldName v dm = dm\<lparr>pending := obj_assign fieldName v (pending dm)\<rparr>"

text \<open>The save button of the newer variant's \<open>DateFieldsModal\<close>.\<close>

definition keepTrue :: "bool js_object \<Rightarrow> bool js_object" where
  "keepTrue updatedFields =
     fold (\<lambda>(key, v) finalFields. if v then obj_assign key True finalFields else finalFields)
          (Object_entries updatedFields) []"

definition saveDateFields :: "DateFieldsModal \<Rightarrow> TinyTemplatesSettings \<Rightarrow> TinyTemplatesSettings" where
  "saveDateFields dm s =
     (let ts = (case templates s (templatePath dm) of
                  None \<Rightarrow> new_template_settings (templateName dm)
                | Some ts \<Rightarrow> ts);
          currentFields = (case dateFields ts of None \<Rightarrow> [] | Some f \<Rightarrow> f);
          updatedFields = spread2 currentFields (pending dm);
          finalFields = keepTrue updatedFields
      in s\<lparr>templates := (templates s)(templatePath dm \<mapsto> ts\<lparr>dateFields := Some finalFields\<rparr>)\<rparr>)"

section \<open>Notions of the specification and the inputs used below\<close>

text \<open>
  The day number of \<open>now\<close> within its year, counting January 1 as day 1, and the week
  number as the specification writes it: the ceiling of a seventh of the day number plus
  the weekday of January 1.
\<close>

definition dayOfYear :: "js_date \<Rightarrow> int" where
  "dayOfYear now = dayNumber now - dayNumber (Date_ymd (getFullYear now) 0 1) + 1"

definition weekOfYear_spec :: "js_date \<Rightarrow> int" where
  "weekOfYear_spec now =
     \<lceil>(of_int (dayOfYear now + getDay (Date_ymd (getFullYear now) 0 1)) :: rat) / 7\<rceil>"

text \<open>A zone eight hours ahead of UTC all year, and Saturday 7 January 2023 at noon.\<close>

definition utc_plus_8 :: timezone where
  "utc_plus_8 = (\<lambda>d. 480)"

definition sat_noon :: js_date where
  "sat_noon =
     \<lparr>getFullYear = 2023, getMonth = 0, getDate = 7, getHours = 12, getMinutes = 0,
      getSeconds = 0, getMilliseconds = 0\<rparr>"

text \<open>The front matter of the file at a path, when there is one.\<close>

definition frontmatterAt :: "world \<Rightarrow> string \<Rightarrow> (string \<rightharpoonup> fm_value) option" where
  "frontmatterAt w p = map_option frontmatter (contents w p)"

text \<open>
  A small vault: the template \<open>T/daily.md\<close> with two front-matter keys, and the folder
  \<open>Inbox\<close>. In \<open>vault_unset\<close> the template has no target folder; in \<open>vault_plain\<close> it has the
  target \<open>Inbox\<close> and nothing else; in \<open>vault_dated\<close> its key \<open>created\<close> is flagged as a
  date field as well.
\<close>

definition daily_content :: file_content where
  "daily_content =
     \<lparr>frontmatter = [''created'' \<mapsto> FmString ''2000-01-01'', ''title'' \<mapsto> FmString ''Daily''],
      body = ''# Notes''\<rparr>"

definition vault_with :: "template_settings \<Rightarrow> world" where
  "vault_with ts =
     \<lparr>files = [''T'' \<mapsto> TFolder ''T'' ''T'' [TFile ''T/daily.md'' ''daily.md'' ''daily''],
               ''T/daily.md'' \<mapsto> TFile ''T/daily.md'' ''daily.md'' ''daily'',
               ''Inbox'' \<mapsto> TFolder ''Inbox'' ''Inbox'' []],
      contents = [''T/daily.md'' \<mapsto> daily_content],
      settings = \<lparr>templateFolder = ''T'', templates = [''T/daily.md'' \<mapsto> ts]\<rparr>,
      notices = [],
      openedFiles = []\<rparr>"

definition vault_unset :: world where
  "vault_unset = vault_with (new_template_settings ''daily'')"


definition vault_dated :: world where
  "vault_dated =
     vault_with ((new_template_settings ''daily'')
       \<lparr>targetFolder := Some ''Inbox'', dateFields := Some [(''created'', True), (''title'', False)]\<rparr>)"

text \<open>
  A host in a zone eight hours ahead of UTC whose clock shows 16 March 2024, 07:00 local
  time, which is 15 March 2024, 23:00 UTC; no host call throws.
\<close>

definition morning :: js_date where
  "morning =
     \<lparr>getFullYear = 2024, getMonth = 2, getDate = 16, getHours = 7, getMinutes = 0,
      getSeconds = 0, getMilliseconds = 0\<rparr>"

text \<open>A stand-in for the collation: the order of the bytes, which on ASCII letters of one
  case is the alphabetical order.\<close>

fun byteCompare :: "string \<Rightarrow> string \<Rightarrow> int" where
  "byteCompare [] [] = 0"
| "byteCompare [] (y # ys) = - 1"
| "byteCompare (x # xs) [] = 1"
| "byteCompare (x # xs) (y # ys) =
     (if (of_char x :: nat) < of_char y then - 1
      else if (of_char y :: nat) < of_char x then 1
      else byteCompare xs ys)"

definition quiet_host :: host where
  "quiet_host =
     \<lparr>zone = utc_plus_8, titleNow = morning, patchNow = morning, localeCompare = byteCompare,
      readThrows = False, createThrows = False, patchThrows = False, openThrows = False\<rparr>"

text \<open>
  The date fields stored for a template, and the state of a field's toggle when the dialog
  is saved: the value the user set in the dialog, or else the stored value.
\<close>

definition storedDateFields :: "TinyTemplatesSettings \<Rightarrow> string \<Rightarrow> bool js_object" where
  "storedDateFields s p =
     (case templates s p of
        None \<Rightarrow> []
      | Some ts \<Rightarrow> (case dateFields ts of None \<Rightarrow> [] | Some f \<Rightarrow> f))"

definition toggleState :: "bool js_object \<Rightarrow> bool js_object \<Rightarrow> string \<Rightarrow> bool option" where
  "toggleState stored changed k =
     (case obj_get changed k of Some v \<Rightarrow> Some v | None \<Rightarrow> obj_get stored k)"

text \<open>
  Settings in which \<open>T/daily.md\<close> has \<open>a\<close> and \<open>b\<close> stored as on and \<open>c\<close> as off, and a dialog in
  which \<open>b\<close> and \<open>e\<close> were switched off and \<open>d\<close> on.
\<close>

definition settings_abc :: TinyTemplatesSettings where
  "settings_abc =
     \<lparr>templateFolder = ''T'',
      templates = [''T/daily.md'' \<mapsto> (new_template_settings ''daily'')
         \<lparr>dateFields := Some [(''a'', True), (''b'', True), (''c'', False)]\<rparr>]\<rparr>"

definition dialog_bde :: DateFieldsModal where
  "dialog_bde =
     \<lparr>templatePath = ''T/daily.md'', templateName = ''daily'',
      pending = [(''b'', False), (''d'', True), (''e'', False)]\<rparr>"

text \<open>
  The files below a folder, each with the names of the folders on the way down to it
  (outermost first), its path and its base name, in the order of the scan; the paths and
  the names of the folders below.
\<close>

fun filesBelow :: "string list \<Rightarrow> abstract_file list \<Rightarrow> (string list \<times> string \<times> string) list" where
  "filesBelow chain [] = []"
| "filesBelow chain (TFile cp cn cb # rest) = (chain, cp, cb) # filesBelow chain rest"
| "filesBelow chain (TFolder cp cn ccs # rest) = filesBelow (chain @ [cn]) ccs @ filesBelow chain rest"

fun folderPaths :: "abstract_file list \<Rightarrow> string list" where
  "folderPaths [] = []"
| "folderPaths (TFile cp cn cb # rest) = folderPaths rest"
| "folderPaths (TFolder cp cn ccs # rest) = cp # folderPaths ccs @ folderPaths rest"

fun folderNames :: "abstract_file list \<Rightarrow> string list" where
  "folderNames [] = []"
| "folderNames (TFile cp cn cb # rest) = folderNames rest"
| "folderNames (TFolder cp cn ccs # rest) = cn # folderNames ccs @ folderNames rest"

text \<open>
  Three readings of a chain of folder names as a category: the outermost folder (what the
  specification says of the picker), the innermost folder, and the whole chain joined by
  slashes. The empty chain, a file directly in the root, gives the empty category.
\<close>

definition outermost :: "string list \<Rightarrow> string" where
  "outermost chain = (case chain of [] \<Rightarrow> [] | c # _ \<Rightarrow> c)"

definition innermost :: "string list \<Rightarrow> string" where
  "innermost chain = (if chain = [] then [] else last chain)"

fun joinSlash :: "string list \<Rightarrow> string" where
  "joinSlash [] = []"
| "joinSlash [c] = c"
| "joinSlash (c # d # rest) = c @ ''/'' @ joinSlash (d # rest)"

text \<open>A template folder \<open>T\<close> holding \<open>r.md\<close> and, two folders down, \<open>A/B/f.md\<close>.\<close>

definition deep_tree :: "abstract_file list" where
  "deep_tree =
     [TFolder ''T/A'' ''A'' [TFolder ''T/A/B'' ''B'' [TFile ''T/A/B/f.md'' ''f.md'' ''f'']],
      TFile ''T/r.md'' ''r.md'' ''r'']"

definition settings_T :: TinyTemplatesSettings where
  "settings_T = \<lparr>templateFolder = ''T'', templates = Map.empty\<rparr>"

definition new_tab :: TinyTemplatesSettingTab where
  "new_tab = \<lparr>templateFolders = [], tab_templates = []\<rparr>"

text \<open>
  A vault whose template folder \<open>T\<close> lists the folder \<open>B\<close> before the folder \<open>A\<close>, each with
  one template.
\<close>

definition vault_BA :: world where
  "vault_BA =
     \<lparr>files = [''T'' \<mapsto> TFolder ''T'' ''T''
                 [TFolder ''T/B'' ''B'' [TFile ''T/B/b.md'' ''b.md'' ''b''],
                  TFolder ''T/A'' ''A'' [TFile ''T/A/a.md'' ''a.md'' ''a'']],
               ''T/B/b.md'' \<mapsto> TFile ''T/B/b.md'' ''b.md'' ''b'',
               ''T/A/a.md'' \<mapsto> TFile ''T/A/a.md'' ''a.md'' ''a''],
      contents = Map.empty,
      settings = \<lparr>templateFolder = ''T'', templates = Map.empty\<rparr>,
      notices = [],
      openedFiles = []\<rparr>"

text \<open>The picker after \<open>loadTemplates\<close>, and the world with it; nothing when loading fails.\<close>

definition loaded :: "js_error + world \<times> TinyTemplatesModal \<Rightarrow> TinyTemplatesModal option" where
  "loaded r = (case r of Inl e \<Rightarrow> None | Inr st \<Rightarrow> Some (snd st))"

definition loadedWorld :: "js_error + world \<times> TinyTemplatesModal \<Rightarrow> world option" where
  "loadedWorld r = (case r of Inl e \<Rightarrow> None | Inr st \<Rightarrow> Some (fst st))"

text \<open>The cursor and the selection of a picker.\<close>

definition cursor :: "TinyTemplatesModal \<Rightarrow> int \<times> int \<times> string option" where
  "cursor m = (currentCategoryIndex m, currentTemplateIndex m, selectedTemplate m)"













section \<open>Properties of the Title Formatter\<close>

lemma digit_char_range: "d < 10 \<Longrightarrow> digit_char d \<in> set ''0123456789''"
  unfolding digit_char_def by (rule nth_mem) simp

lemma digit_char_no_brace: "d < 10 \<Longrightarrow> digit_char d \<noteq> CHR ''{''"
proof
  assume "d < 10" and eq: "digit_char d = CHR ''{''"
  then have "CHR ''{'' \<in> set ''0123456789''" using digit_char_range [of d] by (simp only:)
  then show False by simp
qed

lemma no_brace_digits: "CHR ''{'' \<notin> set (digits_of n)"
proof (induction n rule: digits_of.induct)
  case (1 n)
  show ?case
  proof (cases "n < 10")
    case True
    then show ?thesis using digit_char_no_brace [of n] by (subst digits_of.simps) auto
  next
    case False
    have "digit_char (n mod 10) \<noteq> CHR ''{''" by (rule digit_char_no_brace) simp
    with False 1 show ?thesis by (subst digits_of.simps) auto
  qed
qed

lemma no_brace_String: "CHR ''{'' \<notin> set (String n)"
  using no_brace_digits [of "nat n"] no_brace_digits [of "nat (- n)"]
  by (simp add: String_def)

lemma no_brace_pad: "CHR ''{'' \<notin> set (padStart k CHR ''0'' (String n))"
  using no_brace_String [of n] by (simp add: padStart_def)

lemma replaceAll_skip:
  "CHR ''{'' \<notin> set xs \<Longrightarrow>
   replaceAll (CHR ''{'' # p) rep (xs @ ys) = xs @ replaceAll (CHR ''{'' # p) rep ys"
  by (induction xs) auto

lemma replaceAll_none:
  "CHR ''{'' \<notin> set xs \<Longrightarrow> replaceAll (CHR ''{'' # p) rep xs = xs"
  using replaceAll_skip [of xs p rep "[]"] by simp

text \<open>
  C6. For every date and zone: the empty format gives the empty title; the format
  \<open>{{unknown}}\<close> comes back unchanged; and the format \<open>{{year}}-{{month}}-{{day}}\<close> gives the
  same title as \<open>{{date}}\<close>.
\<close>

theorem formatTitle_laws:
  "formatTitle tz now [] = [] \<and>
   formatTitle tz now ''{{unknown}}'' = ''{{unknown}}'' \<and>
   formatTitle tz now ''{{year}}-{{month}}-{{day}}'' = formatTitle tz now ''{{date}}''"
proof (intro conjI)
  show "formatTitle tz now [] = []"
    by (simp add: formatTitle_def)
  show "formatTitle tz now ''{{unknown}}'' = ''{{unknown}}''"
    by (simp add: formatTitle_def Let_def)
  show "formatTitle tz now ''{{year}}-{{month}}-{{day}}'' = formatTitle tz now ''{{date}}''"
    by (simp add: formatTitle_def Let_def replaceAll_skip replaceAll_none
        no_brace_String no_brace_pad)
qed

text \<open>
  The week number of the code, for a zone whose offset at \<open>now\<close> is the one of January 1:
  at a local midnight it is the specification's number, at any other time of the day it
  is one more than the floor, which on a Saturday is one more than the specification's.
\<close>

lemma weekNum_fixed_zone:
  assumes tz: "tz now = tz (Date_ymd (getFullYear now) 0 1)"
    and ms: "0 \<le> msOfDay now" "msOfDay now < 86400000"
  shows "weekNum tz now =
     (if msOfDay now = 0 then weekOfYear_spec now
      else (dayOfYear now + getDay (Date_ymd (getFullYear now) 0 1)) div 7 + 1)"
proof -
  define x where "x = dayOfYear now + getDay (Date_ymd (getFullYear now) 0 1)"
  define r where "r = msOfDay now"
  have past: "pastDaysOfYear tz now = of_int (dayOfYear now - 1) + of_int r / 86400000"
    using tz
    by (simp add: pastDaysOfYear_def getTime_def dayOfYear_def r_def msOfDay_def Date_ymd_def
        field_simps)
  have w: "weekNum tz now = \<lceil>(of_int x + of_int r / 86400000 :: rat) / 7\<rceil>"
    by (simp add: weekNum_def past x_def ac_simps)
  show ?thesis
  proof (cases "r = 0")
    case True
    then show ?thesis using w by (simp add: weekOfYear_spec_def x_def r_def)
  next
    case False
    with ms have r: "0 < r" "r < 86400000" by (simp_all add: r_def)
    have "\<lceil>(of_int x + of_int r / 86400000 :: rat) / 7\<rceil> = x div 7 + 1"
    proof (rule ceiling_unique)
      have "7 * (x div 7) \<le> x" by presburger
      then have lo: "(of_int (7 * (x div 7)) :: rat) \<le> of_int x" by (simp only: of_int_le_iff)
      have "x \<le> 7 * (x div 7) + 6" by presburger
      then have hi: "(of_int x :: rat) \<le> of_int (7 * (x div 7) + 6)" by (simp only: of_int_le_iff)
      have f0: "0 < (of_int r :: rat) / 86400000" using r by simp
      have f1: "(of_int r :: rat) / 86400000 < 1" using r by simp
      show "of_int (x div 7 + 1) - 1 < (of_int x + of_int r / 86400000 :: rat) / 7"
        using lo f0 by simp
      show "(of_int x + of_int r / 86400000 :: rat) / 7 \<le> of_int (x div 7 + 1)"
        using hi f1 by simp
    qed
    with False w show ?thesis by (simp add: x_def r_def)
  qed
qed

text \<open>
  C5. On Saturday 7 January 2023, a year whose January 1 is a Sunday, the day number is 7
  and the specification's week number is 1, written \<open>01\<close>. The code writes \<open>01\<close> at local
  midnight and \<open>02\<close> at noon of the same day.
\<close>

theorem formatTitle_week_changes_within_a_day:
  "formatTitle utc_plus_8 sat_noon ''{{week}}'' = ''02'' \<and>
   formatTitle utc_plus_8 (Date_ymd 2023 0 7) ''{{week}}'' = ''01'' \<and>
   dayOfYear sat_noon = 7 \<and> dayOfYear (Date_ymd 2023 0 7) = 7 \<and>
   getDay (Date_ymd 2023 0 1) = 0 \<and> getDay sat_noon = 6 \<and>
   padStart 2 CHR ''0'' (String (weekOfYear_spec sat_noon)) = ''01''"
proof (intro conjI)
  show "formatTitle utc_plus_8 sat_noon ''{{week}}'' = ''02''" by code_simp
  show "formatTitle utc_plus_8 (Date_ymd 2023 0 7) ''{{week}}'' = ''01''" by code_simp
  show "dayOfYear sat_noon = 7" by code_simp
  show "dayOfYear (Date_ymd 2023 0 7) = 7" by code_simp
  show "getDay (Date_ymd 2023 0 1) = 0" by code_simp
  show "getDay sat_noon = 6" by code_simp
  show "padStart 2 CHR ''0'' (String (weekOfYear_spec sat_noon)) = ''01''" by code_simp
qed

section \<open>Properties of the host containers\<close>

lemma obj_get_obj_set: "obj_get (obj_set k v obj) k' = (if k' = k then Some v else obj_get obj k')"
  by (induction obj) (auto simp: obj_get_def)

lemma obj_keys_dom: "fst ` set obj = {k. obj_get obj k \<noteq> None}"
  using dom_map_of_conv_image_fst [of obj] by (auto simp: obj_get_def dom_def)

lemma obj_set_keys: "fst ` set (obj_set k v obj) = insert k (fst ` set obj)"
  by (auto simp: obj_keys_dom obj_get_obj_set)

lemma obj_set_distinct: "distinct (map fst obj) \<Longrightarrow> distinct (map fst (obj_set k v obj))"
proof (induction obj)
  case Nil
  then show ?case by simp
next
  case (Cons a obj)
  obtain k' v' where a: "a = (k', v')" by (cases a)
  have "fst ` set (obj_set k v obj) = insert k (fst ` set obj)" by (rule obj_set_keys)
  with Cons a show ?case by auto
qed

lemma obj_set_values: "set (obj_set k v obj) \<subseteq> insert (k, v) (set obj)"
  by (induction obj) (auto split: if_splits)

lemma Object_keys_set: "set (Object_keys obj) = fst ` set obj"
  by (auto simp: Object_keys_def Let_def)

lemma Object_entries_iff: "(k, v) \<in> set (Object_entries obj) \<longleftrightarrow> obj_get obj k = Some v"
proof
  assume "(k, v) \<in> set (Object_entries obj)"
  then show "obj_get obj k = Some v"
    by (auto simp: Object_entries_def split: option.splits)
next
  assume g: "obj_get obj k = Some v"
  then have "k \<in> fst ` set obj"
    by (simp add: obj_keys_dom)
  then have "k \<in> set (Object_keys obj)" by (simp add: Object_keys_set)
  with g show "(k, v) \<in> set (Object_entries obj)"
    by (force simp: Object_entries_def)
qed

lemma fold_obj_set_get:
  "(\<And>k v. (k, v) \<in> set es \<Longrightarrow> f k = Some v) \<Longrightarrow>
   obj_get (fold (\<lambda>(k, v). obj_set k v) es acc) k =
     (if k \<in> fst ` set es then f k else obj_get acc k)"
proof (induction es arbitrary: acc)
  case Nil
  then show ?case by simp
next
  case (Cons e es)
  obtain k0 v0 where e: "e = (k0, v0)" by (cases e)
  have f0: "f k0 = Some v0" using Cons.prems [of k0 v0] e by simp
  have IH: "obj_get (fold (\<lambda>(k, v). obj_set k v) es (obj_set k0 v0 acc)) k =
     (if k \<in> fst ` set es then f k else obj_get (obj_set k0 v0 acc) k)"
    using Cons.IH [of "obj_set k0 v0 acc"] Cons.prems by simp
  show ?case using IH f0 e by (auto simp: obj_get_obj_set)
qed

lemma obj_get_fold_entries:
  "obj_get (fold (\<lambda>(k, v). obj_set k v) (Object_entries b) acc) k =
     (case obj_get b k of Some v \<Rightarrow> Some v | None \<Rightarrow> obj_get acc k)"
proof -
  have keys: "k \<in> fst ` set (Object_entries b) \<longleftrightarrow> obj_get b k \<noteq> None"
    using Object_entries_iff [of k _ b] by force
  have "obj_get (fold (\<lambda>(k, v). obj_set k v) (Object_entries b) acc) k =
     (if k \<in> fst ` set (Object_entries b) then obj_get b k else obj_get acc k)"
    by (rule fold_obj_set_get) (simp add: Object_entries_iff)
  with keys show ?thesis by (auto split: option.splits)
qed

lemma obj_get_Nil: "obj_get [] k = None"
  by (simp add: obj_get_def)

lemma obj_get_spread2:
  "obj_get (spread2 a b) k = (case obj_get b k of Some v \<Rightarrow> Some v | None \<Rightarrow> obj_get a k)"
  by (simp add: spread2_def obj_get_fold_entries obj_get_Nil split: option.splits)

lemma fold_obj_set_distinct:
  "distinct (map fst acc) \<Longrightarrow> distinct (map fst (fold (\<lambda>(k, v). obj_set k v) es acc))"
  by (induction es arbitrary: acc) (auto simp: obj_set_distinct)

lemma keepTrue_fold:
  "distinct (map fst acc) \<Longrightarrow> (\<forall>e \<in> set acc. snd e) \<Longrightarrow>
   (let r = fold (\<lambda>(key, v) finalFields. if v then obj_assign key True finalFields else finalFields) es acc
    in distinct (map fst r) \<and> (\<forall>e \<in> set r. snd e) \<and>
       (\<forall>k. k \<in> fst ` set r \<longleftrightarrow> k \<in> fst ` set acc \<or> (k \<noteq> ''__proto__'' \<and> (k, True) \<in> set es)))"
proof (induction es arbitrary: acc)
  case Nil
  then show ?case by simp
next
  case (Cons e es)
  obtain k0 v0 where e: "e = (k0, v0)" by (cases e)
  define acc' where "acc' = (if v0 then obj_assign k0 True acc else acc)"
  have d: "distinct (map fst acc')"
    using Cons.prems(1) by (simp add: acc'_def obj_assign_def obj_set_distinct)
  have t: "\<forall>e \<in> set acc'. snd e"
    using Cons.prems(2) obj_set_values [of k0 True acc] by (auto simp: acc'_def obj_assign_def)
  have keys: "fst ` set acc' = (if v0 \<and> k0 \<noteq> ''__proto__'' then insert k0 (fst ` set acc) else fst ` set acc)"
    by (simp add: acc'_def obj_assign_def obj_set_keys)
  from Cons.IH [OF d t] show ?case
    unfolding Let_def using e keys by (simp add: acc'_def [symmetric]) blast
qed

section \<open>Properties of the Instantiation Engine\<close>

lemma checkedTemplate_unset:
  assumes "files w p = Some (TFile tp tn tb)"
    and "templates (settings w) p = Some ts"
    and "targetFolder ts = None \<or> targetFolder ts = Some []"
  shows "checkedTemplate p w = Inl (TargetFolderUnset tb)"
  using assms by (auto simp: checkedTemplate_def)

text \<open>
  C7. For a template file whose stored configuration has no target folder, absent or
  empty, \<open>createFileFromTemplate\<close> of either variant shows the notice that the target folder
  is not set and changes nothing else: files, contents, settings, opened tabs and the
  picker are as before.
\<close>

theorem createFileFromTemplate_target_unset:
  assumes "files w p = Some (TFile tp tn tb)"
    and "templates (settings w) p = Some ts"
    and "targetFolder ts = None \<or> targetFolder ts = Some []"
  shows "createFileFromTemplate h p (w, m) = (w\<lparr>notices := notices w @ [TargetFolderUnset tb]\<rparr>, m) \<and>
         createFileFromTemplate_main h p (w, m) = (w\<lparr>notices := notices w @ [TargetFolderUnset tb]\<rparr>, m)"
  using checkedTemplate_unset [OF assms]
  by (simp add: createFileFromTemplate_def createFileFromTemplate_main_def notify_def)

theorem createFileFromTemplate_target_unset_witness:
  "createFileFromTemplate quiet_host ''T/daily.md'' (vault_unset, new_modal) =
     (vault_unset\<lparr>notices := [TargetFolderUnset ''daily'']\<rparr>, new_modal) \<and>
   createFileFromTemplate_main quiet_host ''T/daily.md'' (vault_unset, new_modal) =
     (vault_unset\<lparr>notices := [TargetFolderUnset ''daily'']\<rparr>, new_modal) \<and>
   files (vault_unset\<lparr>notices := [TargetFolderUnset ''daily'']\<rparr>) = files vault_unset \<and>
   contents (vault_unset\<lparr>notices := [TargetFolderUnset ''daily'']\<rparr>) = contents vault_unset"
proof -
  have f: "files vault_unset ''T/daily.md'' = Some (TFile ''T/daily.md'' ''daily.md'' ''daily'')"
    by (simp add: vault_unset_def vault_with_def)
  have t: "templates (settings vault_unset) ''T/daily.md'' = Some (new_template_settings ''daily'')"
    by (simp add: vault_unset_def vault_with_def)
  have u: "targetFolder (new_template_settings ''daily'') = None \<or>
           targetFolder (new_template_settings ''daily'') = Some []"
    by (simp add: new_template_settings_def)
  have n: "notices vault_unset = []"
    by (simp add: vault_unset_def vault_with_def)
  show ?thesis
    using createFileFromTemplate_target_unset [OF f t u, of quiet_host new_modal] n by simp
qed

lemma checkedTemplate_Inr:
  "checkedTemplate p w = Inr (ts, target) \<Longrightarrow>
   templates (settings w) p = Some ts \<and> targetFolder ts = Some target \<and> target \<noteq> []"
  by (auto simp: checkedTemplate_def Let_def split: option.splits abstract_file.splits if_splits)






text \<open>
  The newer variant in general: a run that reaches the closing of the picker creates one
  file whose front matter is the template's, with each key that the stored date fields
  map to true set to the local date of the patch clock, and every other key as copied. For
  a year of four digits that date has ten characters with hyphens after the year and the
  month.
\<close>

lemma stamp_fold:
  "fold (\<lambda>(fieldName, shouldAutoSet) fm.
           if shouldAutoSet then fm_assign fieldName (FmString today) fm else fm) es fm k =
   (if k \<noteq> ''__proto__'' \<and> (k, True) \<in> set es then Some (FmString today) else fm k)"
proof (induction es arbitrary: fm)
  case Nil
  then show ?case by simp
next
  case (Cons e es)
  obtain k0 v0 where e: "e = (k0, v0)" by (cases e)
  show ?case using Cons.IH e by (auto simp: fm_assign_def)
qed

lemma stampDateFields_apply:
  "stampDateFields today dfs fm k =
   (if k \<noteq> ''__proto__'' \<and> obj_get dfs k = Some True then Some (FmString today) else fm k)"
  by (simp add: stampDateFields_def stamp_fold Object_entries_iff)

lemma Object_entries_no_keys: "Object_keys dfs = [] \<Longrightarrow> Object_entries dfs = []"
  by (simp add: Object_entries_def)

lemma instantiate_contents:
  assumes "\<not> closed m"
    and "closed (snd (instantiate h p target fileName today dfs created (w, m)))"
  shows "\<exists>c. contents w p = Some c \<and> files w (target @ ''/'' @ fileName) = None \<and>
     contents (fst (instantiate h p target fileName today dfs created (w, m))) =
       (contents w)(target @ ''/'' @ fileName \<mapsto>
          c\<lparr>frontmatter := stampDateFields today dfs (frontmatter c)\<rparr>)"
proof (cases "Object_keys dfs = []")
  case True
  then have "stampDateFields today dfs fm = fm" for fm
    by (simp add: stampDateFields_def Object_entries_no_keys)
  then show ?thesis
    using assms True
    by (auto simp: instantiate_def Let_def vault_create_def notify_def
        split: option.splits if_splits)
next
  case False
  then show ?thesis
    using assms
    by (auto simp: instantiate_def Let_def vault_create_def notify_def processFrontMatter_def
        split: option.splits if_splits)
qed

lemma createFileFromTemplate_stamps_local_date:
  assumes m: "\<not> closed m"
    and c: "closed (snd (createFileFromTemplate h p (w, m)))"
  shows "\<exists>c np. contents w p = Some c \<and> files w np = None \<and>
     (\<forall>k. map_option (\<lambda>fm. fm k) (frontmatterAt (fst (createFileFromTemplate h p (w, m))) np) =
        Some (if k \<noteq> ''__proto__'' \<and> obj_get (storedDateFields (settings w) p) k = Some True
              then Some (FmString (today_local (patchNow h))) else frontmatter c k)) \<and>
     (\<forall>q. q \<noteq> np \<longrightarrow> contents (fst (createFileFromTemplate h p (w, m))) q = contents w q)"
proof (cases "checkedTemplate p w")
  case (Inl n)
  with c m show ?thesis by (simp add: createFileFromTemplate_def)
next
  case (Inr r)
  obtain ts target where r: "r = (ts, target)" by (cases r)
  from checkedTemplate_Inr [of p w ts target] Inr r
  have ts: "templates (settings w) p = Some ts" by simp
  define dfs where "dfs = (case dateFields ts of None \<Rightarrow> [] | Some d \<Rightarrow> d)"
  have st: "storedDateFields (settings w) p = dfs"
    by (simp add: storedDateFields_def ts dfs_def)
  obtain fileName where run: "createFileFromTemplate h p (w, m) =
      instantiate h p target fileName (today_local (patchNow h)) dfs False (w, m)"
    using Inr r by (simp add: createFileFromTemplate_def Let_def dfs_def)
  from instantiate_contents [OF m, of h p target fileName "today_local (patchNow h)" dfs False w] c run
  obtain cnt where cnt: "contents w p = Some cnt" "files w (target @ ''/'' @ fileName) = None"
    "contents (fst (createFileFromTemplate h p (w, m))) =
       (contents w)(target @ ''/'' @ fileName \<mapsto>
          cnt\<lparr>frontmatter := stampDateFields (today_local (patchNow h)) dfs (frontmatter cnt)\<rparr>)"
    by auto
  show ?thesis
    apply (rule exI [of _ cnt], rule exI [of _ "target @ ''/'' @ fileName"])
    using cnt by (simp add: frontmatterAt_def stampDateFields_apply st)
qed

lemma digits_of_1: "n < 10 \<Longrightarrow> digits_of n = [digit_char n]"
  by (subst digits_of.simps) simp

lemma digits_of_2: "10 \<le> n \<Longrightarrow> n < 100 \<Longrightarrow> digits_of n = [digit_char (n div 10), digit_char (n mod 10)]"
  by (subst digits_of.simps) (simp add: digits_of_1)

lemma digits_of_3:
  "100 \<le> n \<Longrightarrow> n < 1000 \<Longrightarrow>
   digits_of n = [digit_char (n div 10 div 10), digit_char (n div 10 mod 10), digit_char (n mod 10)]"
  by (subst digits_of.simps) (simp add: digits_of_2)

lemma digits_of_4:
  "1000 \<le> n \<Longrightarrow> n < 10000 \<Longrightarrow>
   digits_of n = [digit_char (n div 10 div 10 div 10), digit_char (n div 10 div 10 mod 10),
                  digit_char (n div 10 mod 10), digit_char (n mod 10)]"
  by (subst digits_of.simps) (simp add: digits_of_3)

lemma pad2_length:
  assumes "0 \<le> n" "n < 100"
  shows "length (padStart 2 CHR ''0'' (String n)) = 2"
proof (cases "nat n < 10")
  case True
  then show ?thesis using assms by (simp add: padStart_def String_def digits_of_1)
next
  case False
  then show ?thesis using assms by (simp add: padStart_def String_def digits_of_2)
qed

lemma today_local_shape:
  assumes "1000 \<le> getFullYear now" "getFullYear now \<le> 9999"
    and "0 \<le> getMonth now" "getMonth now \<le> 11" and "1 \<le> getDate now" "getDate now \<le> 31"
  shows "length (today_local now) = 10 \<and> today_local now ! 4 = CHR ''-'' \<and>
         today_local now ! 7 = CHR ''-''"
proof -
  have y: "length (String (getFullYear now)) = 4"
    using assms(1,2) by (simp add: String_def digits_of_4)
  have m: "length (padStart 2 CHR ''0'' (String (getMonth now + 1))) = 2"
    using assms(3,4) by (intro pad2_length) simp_all
  have d: "length (padStart 2 CHR ''0'' (String (getDate now))) = 2"
    using assms(5,6) by (intro pad2_length) simp_all
  show ?thesis
    using y m d by (simp add: today_local_def nth_append)
qed

text \<open>
  C1. At 07:00 on 16 March 2024 in a zone eight hours ahead of UTC the local date is
  \<open>2024-03-16\<close> and the UTC date is \<open>2024-03-15\<close>. For a template whose key \<open>created\<close> is
  flagged and whose key \<open>title\<close> is not, \<open>createFileFromTemplate\<close> of \<open>src/main.ts\<close> writes the
  UTC date into \<open>created\<close>, the newer variant writes the local date; both leave \<open>title\<close> as
  copied.
\<close>

theorem createFileFromTemplate_main_stamps_utc_date:
  "today_local (patchNow quiet_host) = ''2024-03-16'' \<and>
   toISOString_date (zone quiet_host) (patchNow quiet_host) = ''2024-03-15'' \<and>
   map_option (\<lambda>fm. (fm ''created'', fm ''title''))
     (frontmatterAt (fst (createFileFromTemplate_main quiet_host ''T/daily.md'' (vault_dated, new_modal)))
        (''Inbox/'' @ placeholderName)) =
     Some (Some (FmString ''2024-03-15''), Some (FmString ''Daily'')) \<and>
   map_option (\<lambda>fm. (fm ''created'', fm ''title''))
     (frontmatterAt (fst (createFileFromTemplate quiet_host ''T/daily.md'' (vault_dated, new_modal)))
        (''Inbox/'' @ placeholderName)) =
     Some (Some (FmString ''2024-03-16''), Some (FmString ''Daily''))"
proof (intro conjI)
  show "today_local (patchNow quiet_host) = ''2024-03-16''" by code_simp
  show "toISOString_date (zone quiet_host) (patchNow quiet_host) = ''2024-03-15''" by code_simp
  show "map_option (\<lambda>fm. (fm ''created'', fm ''title''))
     (frontmatterAt (fst (createFileFromTemplate_main quiet_host ''T/daily.md'' (vault_dated, new_modal)))
        (''Inbox/'' @ placeholderName)) =
     Some (Some (FmString ''2024-03-15''), Some (FmString ''Daily''))" by code_simp
  show "map_option (\<lambda>fm. (fm ''created'', fm ''title''))
     (frontmatterAt (fst (createFileFromTemplate quiet_host ''T/daily.md'' (vault_dated, new_modal)))
        (''Inbox/'' @ placeholderName)) =
     Some (Some (FmString ''2024-03-16''), Some (FmString ''Daily''))" by code_simp
qed

section \<open>Properties of the date-field configuration\<close>

lemma keepTrue_props:
  "distinct (map fst (keepTrue u)) \<and> (\<forall>e \<in> set (keepTrue u). snd e) \<and>
   (\<forall>k. k \<in> fst ` set (keepTrue u) \<longleftrightarrow> (k \<noteq> ''__proto__'' \<and> obj_get u k = Some True))"
  using keepTrue_fold [of "[]" "Object_entries u"]
  by (simp add: keepTrue_def Let_def Object_entries_iff)

text \<open>
  C10. After the save of the newer variant's date-fields dialog, the template's stored
  \<open>dateFields\<close> holds each key once and only with the value true, and a key is stored
  exactly when its toggle stood on at the save: switched on in the dialog, or stored as on
  before and not switched off. A key switched off, or stored as off and not switched on, is
  gone. The reserved key \<open>__proto__\<close>, which no assignment can store, is never kept.
\<close>

theorem saveDateFields_keeps_enabled_only:
  "\<exists>ts final.
     templates (saveDateFields dm s) (templatePath dm) = Some ts \<and>
     dateFields ts = Some final \<and>
     distinct (map fst final) \<and>
     (\<forall>e \<in> set final. snd e = True) \<and>
     ''__proto__'' \<notin> fst ` set final \<and>
     (\<forall>k. k \<noteq> ''__proto__'' \<longrightarrow>
        (k \<in> fst ` set final \<longleftrightarrow>
         toggleState (storedDateFields s (templatePath dm)) (pending dm) k = Some True))"
proof -
  define cur where "cur = storedDateFields s (templatePath dm)"
  define final where "final = keepTrue (spread2 cur (pending dm))"
  define ts0 where "ts0 = (case templates s (templatePath dm) of
      None \<Rightarrow> new_template_settings (templateName dm) | Some ts \<Rightarrow> ts)"
  have cur: "(case dateFields ts0 of None \<Rightarrow> [] | Some f \<Rightarrow> f) = cur"
    by (simp add: ts0_def cur_def storedDateFields_def new_template_settings_def
        split: option.splits)
  have saved: "templates (saveDateFields dm s) (templatePath dm) =
      Some (ts0\<lparr>dateFields := Some final\<rparr>)"
    by (simp add: saveDateFields_def Let_def ts0_def [symmetric] cur final_def)
  have merged: "obj_get (spread2 cur (pending dm)) k = toggleState cur (pending dm) k" for k
    by (simp add: obj_get_spread2 toggleState_def)
  from keepTrue_props [of "spread2 cur (pending dm)"]
  have p: "distinct (map fst final)" "\<forall>e \<in> set final. snd e"
    "\<forall>k. k \<in> fst ` set final \<longleftrightarrow> (k \<noteq> ''__proto__'' \<and> toggleState cur (pending dm) k = Some True)"
    by (simp_all add: final_def merged)
  show ?thesis
    using saved p by (simp add: cur_def)
qed

theorem saveDateFields_keeps_enabled_only_witness:
  "storedDateFields (saveDateFields dialog_bde settings_abc) ''T/daily.md'' = [(''a'', True), (''d'', True)] \<and>
   toggleState (storedDateFields settings_abc ''T/daily.md'') (pending dialog_bde) ''b'' = Some False \<and>
   ''b'' \<notin> fst ` set (storedDateFields (saveDateFields dialog_bde settings_abc) ''T/daily.md'') \<and>
   toggleState (storedDateFields settings_abc ''T/daily.md'') (pending dialog_bde) ''d'' = Some True \<and>
   ''d'' \<in> fst ` set (storedDateFields (saveDateFields dialog_bde settings_abc) ''T/daily.md'')"
proof -
  have p: "templatePath dialog_bde = ''T/daily.md''" by (simp add: dialog_bde_def)
  from saveDateFields_keeps_enabled_only [of dialog_bde settings_abc]
  obtain ts final where
    s: "templates (saveDateFields dialog_bde settings_abc) ''T/daily.md'' = Some ts"
      "dateFields ts = Some final" and
    k: "\<forall>k. k \<noteq> ''__proto__'' \<longrightarrow>
        (k \<in> fst ` set final \<longleftrightarrow>
         toggleState (storedDateFields settings_abc ''T/daily.md'') (pending dialog_bde) k = Some True)"
    unfolding p by blast
  have f: "storedDateFields (saveDateFields dialog_bde settings_abc) ''T/daily.md'' = final"
    using s by (simp add: storedDateFields_def)
  have e: "storedDateFields (saveDateFields dialog_bde settings_abc) ''T/daily.md'' = [(''a'', True), (''d'', True)]"
    by code_simp
  have b: "toggleState (storedDateFields settings_abc ''T/daily.md'') (pending dialog_bde) ''b'' = Some False"
    by code_simp
  have d: "toggleState (storedDateFields settings_abc ''T/daily.md'') (pending dialog_bde) ''d'' = Some True"
    by code_simp
  from k b have "''b'' \<notin> fst ` set final" by simp
  moreover from k d have "''d'' \<in> fst ` set final" by simp
  ultimately show ?thesis using e b d f by simp
qed

section \<open>Properties of the Folder Scanner\<close>

lemma templateFolder_registerTemplate [simp]:
  "templateFolder (registerTemplate cp cb s) = templateFolder s"
  by (simp add: registerTemplate_def)

lemma scanChildren_modal:
  "tf = templateFolder (fst st) \<Longrightarrow> tf \<notin> set (folderPaths cs) \<Longrightarrow> (isRoot \<longrightarrow> ch = []) \<Longrightarrow>
   cat = innermost ch \<Longrightarrow>
   templateFolder (fst (scanChildren isRoot cat bp cs st)) = tf \<and>
   modal_templates (snd (scanChildren isRoot cat bp cs st)) =
     fold (\<lambda>(chain, cp, cb). obj_set cp \<lparr>path = cp, category = innermost chain\<rparr>)
       (filesBelow ch cs) (modal_templates (snd st))"
proof (induction cs arbitrary: st isRoot ch cat rule: measure_induct_rule [where f = "size_list size"])
  case (less cs)
  show ?case
  proof (cases cs)
    case Nil
    then show ?thesis using less.prems by simp
  next
    case (Cons c rest)
    show ?thesis
    proof (cases c)
      case (TFile cp cn cb)
      define st' where "st' = (registerTemplate cp cb (fst st),
            (snd st)\<lparr>modal_templates :=
               obj_set cp \<lparr>path = cp, category = (if isRoot then [] else cat)\<rparr> (modal_templates (snd st))\<rparr>)"
      have step: "scanChildren isRoot cat bp cs st = scanChildren isRoot cat bp rest st'"
        by (simp add: Cons TFile st'_def Let_def)
      have sz: "size_list size rest < size_list size cs" by (simp add: Cons)
      have c: "(if isRoot then [] else cat) = innermost ch"
        using less.prems by (auto simp: innermost_def)
      have "templateFolder (fst (scanChildren isRoot cat bp rest st')) = tf \<and>
        modal_templates (snd (scanChildren isRoot cat bp rest st')) =
          fold (\<lambda>(chain, cp, cb). obj_set cp \<lparr>path = cp, category = innermost chain\<rparr>)
            (filesBelow ch rest) (modal_templates (snd st'))"
        using less.prems Cons TFile by (intro less.IH [OF sz]) (simp_all add: st'_def)
      then show ?thesis
        using step c by (simp add: Cons TFile st'_def)
    next
      case (TFolder cp cn ccs)
      define st' where "st' = scanChildren (cp = templateFolder (fst st)) cn bp ccs st"
      have step: "scanChildren isRoot cat bp cs st = scanChildren isRoot cat bp rest st'"
        by (simp add: Cons TFolder st'_def)
      have sz1: "size_list size ccs < size_list size cs" by (simp add: Cons TFolder)
      have sz2: "size_list size rest < size_list size cs" by (simp add: Cons)
      have notroot: "cp \<noteq> tf" "tf \<notin> set (folderPaths ccs)" "tf \<notin> set (folderPaths rest)"
        using less.prems(2) by (auto simp: Cons TFolder)
      have inner: "templateFolder (fst st') = tf \<and>
        modal_templates (snd st') =
          fold (\<lambda>(chain, cp, cb). obj_set cp \<lparr>path = cp, category = innermost chain\<rparr>)
            (filesBelow (ch @ [cn]) ccs) (modal_templates (snd st))"
        unfolding st'_def using less.prems(1) notroot
        by (intro less.IH [OF sz1]) (simp_all add: innermost_def)
      have outer: "templateFolder (fst (scanChildren isRoot cat bp rest st')) = tf \<and>
        modal_templates (snd (scanChildren isRoot cat bp rest st')) =
          fold (\<lambda>(chain, cp, cb). obj_set cp \<lparr>path = cp, category = innermost chain\<rparr>)
            (filesBelow ch rest) (modal_templates (snd st'))"
        using less.prems(3,4) notroot inner by (intro less.IH [OF sz2]) simp_all
      show ?thesis
        using step inner outer by (simp add: Cons TFolder)
    qed
  qed
qed

lemma joinSlash_snoc:
  "joinSlash (ch @ [cn]) = (if ch = [] then cn else joinSlash ch @ ''/'' @ cn)"
  by (induction ch rule: joinSlash.induct) auto

lemma joinSlash_empty: "[] \<notin> set ch \<Longrightarrow> joinSlash ch = [] \<longleftrightarrow> ch = []"
  by (induction ch rule: joinSlash.induct) auto

lemma scanChildren_tab_templates:
  "tf = templateFolder (fst st) \<Longrightarrow> tf \<notin> set (folderPaths cs) \<Longrightarrow> [] \<notin> set (folderNames cs) \<Longrightarrow>
   [] \<notin> set ch \<Longrightarrow> (isRoot \<longrightarrow> ch = []) \<Longrightarrow> cat = joinSlash ch \<Longrightarrow>
   templateFolder (fst (scanChildren_tab isRoot cat afp cs st)) = tf \<and>
   tab_templates (snd (scanChildren_tab isRoot cat afp cs st)) =
     fold (\<lambda>(chain, cp, cb). obj_set cb \<lparr>path = cp, category = joinSlash chain\<rparr>)
       (filesBelow ch cs) (tab_templates (snd st))"
proof (induction cs arbitrary: st isRoot ch cat rule: measure_induct_rule [where f = "size_list size"])
  case (less cs)
  show ?case
  proof (cases cs)
    case Nil
    then show ?thesis using less.prems by simp
  next
    case (Cons c rest)
    show ?thesis
    proof (cases c)
      case (TFile cp cn cb)
      define st' where "st' = (registerTemplate cp cb (fst st),
            (snd st)\<lparr>templateFolders := obj_set cp afp (templateFolders (snd st)),
                      tab_templates :=
                        obj_set cb \<lparr>path = cp, category = (if isRoot then [] else cat)\<rparr>
                          (tab_templates (snd st))\<rparr>)"
      have step: "scanChildren_tab isRoot cat afp cs st = scanChildren_tab isRoot cat afp rest st'"
        by (simp add: Cons TFile st'_def Let_def)
      have sz: "size_list size rest < size_list size cs" by (simp add: Cons)
      have c: "(if isRoot then [] else cat) = joinSlash ch"
        using less.prems by auto
      have "templateFolder (fst (scanChildren_tab isRoot cat afp rest st')) = tf \<and>
        tab_templates (snd (scanChildren_tab isRoot cat afp rest st')) =
          fold (\<lambda>(chain, cp, cb). obj_set cb \<lparr>path = cp, category = joinSlash chain\<rparr>)
            (filesBelow ch rest) (tab_templates (snd st'))"
        using less.prems Cons TFile by (intro less.IH [OF sz]) (simp_all add: st'_def)
      then show ?thesis
        using step c by (simp add: Cons TFile st'_def)
    next
      case (TFolder cp cn ccs)
      define newCategory where "newCategory = (if cat \<noteq> [] then cat @ ''/'' @ cn else cn)"
      define st' where "st' = scanChildren_tab (cp = templateFolder (fst st)) newCategory afp ccs st"
      have step: "scanChildren_tab isRoot cat afp cs st = scanChildren_tab isRoot cat afp rest st'"
        by (simp add: Cons TFolder st'_def newCategory_def Let_def)
      have sz1: "size_list size ccs < size_list size cs" by (simp add: Cons TFolder)
      have sz2: "size_list size rest < size_list size cs" by (simp add: Cons)
      have notroot: "cp \<noteq> tf" "tf \<notin> set (folderPaths ccs)" "tf \<notin> set (folderPaths rest)"
        using less.prems(2) by (auto simp: Cons TFolder)
      have names: "cn \<noteq> []" "[] \<notin> set (folderNames ccs)" "[] \<notin> set (folderNames rest)"
        using less.prems(3) by (auto simp: Cons TFolder)
      have nc: "newCategory = joinSlash (ch @ [cn])"
        using less.prems(4,6) joinSlash_empty [of ch]
        by (simp add: newCategory_def joinSlash_snoc)
      have inner: "templateFolder (fst st') = tf \<and>
        tab_templates (snd st') =
          fold (\<lambda>(chain, cp, cb). obj_set cb \<lparr>path = cp, category = joinSlash chain\<rparr>)
            (filesBelow (ch @ [cn]) ccs) (tab_templates (snd st))"
        unfolding st'_def using less.prems(1,4) notroot names nc
        by (intro less.IH [OF sz1]) simp_all
      have outer: "templateFolder (fst (scanChildren_tab isRoot cat afp rest st')) = tf \<and>
        tab_templates (snd (scanChildren_tab isRoot cat afp rest st')) =
          fold (\<lambda>(chain, cp, cb). obj_set cb \<lparr>path = cp, category = joinSlash chain\<rparr>)
            (filesBelow ch rest) (tab_templates (snd st'))"
        using less.prems(4,5,6) notroot names inner by (intro less.IH [OF sz2]) simp_all
      show ?thesis
        using step inner outer by (simp add: Cons TFolder)
    qed
  qed
qed

text \<open>
  C2, as the code has it. When no folder below the root has the path of the template
  folder and no folder name is empty, the picker's scan files every file it finds under
  the name of the folder that directly contains it, the innermost one, and the settings
  page's scan files it under the names of all folders on the way down joined by slashes.
  A file directly in the root gets the empty category, and one folder down both readings
  are that folder's name.
\<close>

theorem scanFolder_categories:
  assumes "templateFolder s \<notin> set (folderPaths cs)" and "[] \<notin> set (folderNames cs)"
  shows
    "modal_templates (snd (scanFolder (TFolder p n cs) [] basePath (s, m))) =
       fold (\<lambda>(chain, cp, cb). obj_set cp \<lparr>path = cp, category = innermost chain\<rparr>)
         (filesBelow [] cs) (modal_templates m) \<and>
     tab_templates (snd (scanFolder_tab (TFolder p n cs) [] allFolderPaths (s, t))) =
       fold (\<lambda>(chain, cp, cb). obj_set cb \<lparr>path = cp, category = joinSlash chain\<rparr>)
         (filesBelow [] cs) (tab_templates t) \<and>
     innermost [] = [] \<and> joinSlash [] = [] \<and>
     (\<forall>c. innermost [c] = c \<and> joinSlash [c] = c)"
proof -
  have a: "modal_templates (snd (scanFolder (TFolder p n cs) [] basePath (s, m))) =
       fold (\<lambda>(chain, cp, cb). obj_set cp \<lparr>path = cp, category = innermost chain\<rparr>)
         (filesBelow [] cs) (modal_templates m)"
    using scanChildren_modal [of "templateFolder s" "(s, m)" cs "p = templateFolder s" "[]" "[]" basePath]
      assms(1)
    by (simp add: innermost_def)
  have b: "tab_templates (snd (scanFolder_tab (TFolder p n cs) [] allFolderPaths (s, t))) =
       fold (\<lambda>(chain, cp, cb). obj_set cb \<lparr>path = cp, category = joinSlash chain\<rparr>)
         (filesBelow [] cs) (tab_templates t)"
    using scanChildren_tab_templates [of "templateFolder s" "(s, t)" cs "[]" "p = templateFolder s"
        "[]" allFolderPaths] assms
    by simp
  show ?thesis using a b by (simp add: innermost_def)
qed

theorem scanFolder_categories_witness:
  "modal_templates (snd (scanFolder (TFolder ''T'' ''T'' deep_tree) [] ''T'' (settings_T, new_modal))) =
     [(''T/A/B/f.md'', \<lparr>path = ''T/A/B/f.md'', category = ''B''\<rparr>),
      (''T/r.md'', \<lparr>path = ''T/r.md'', category = []\<rparr>)] \<and>
   tab_templates (snd (scanFolder_tab (TFolder ''T'' ''T'' deep_tree) [] [] (settings_T, new_tab))) =
     [(''f'', \<lparr>path = ''T/A/B/f.md'', category = ''A/B''\<rparr>),
      (''r'', \<lparr>path = ''T/r.md'', category = []\<rparr>)]"
proof -
  have h1: "templateFolder settings_T \<notin> set (folderPaths deep_tree)"
    by (simp add: settings_T_def deep_tree_def)
  have h2: "[] \<notin> set (folderNames deep_tree)"
    by (simp add: deep_tree_def)
  have fb: "filesBelow [] deep_tree = [([''A'', ''B''], ''T/A/B/f.md'', ''f''), ([], ''T/r.md'', ''r'')]"
    by (simp add: deep_tree_def)
  have e: "modal_templates new_modal = []" "tab_templates new_tab = []"
    by (simp_all add: new_modal_def new_tab_def)
  show ?thesis
    using scanFolder_categories [OF h1 h2, of "''T''" "''T''" "''T''" new_modal "[]" new_tab]
    by (simp add: fb e innermost_def)
qed

text \<open>
  C2, as stated, fails: for \<open>T/A/B/f.md\<close> the outermost folder below the root is \<open>A\<close>, and the
  picker's scan files the template under \<open>B\<close>.
\<close>

theorem scanFolder_outermost_counterexample:
  "filesBelow [] deep_tree = [([''A'', ''B''], ''T/A/B/f.md'', ''f''), ([], ''T/r.md'', ''r'')] \<and>
   outermost [''A'', ''B''] = ''A'' \<and>
   map_option category
     (obj_get (modal_templates (snd (scanFolder (TFolder ''T'' ''T'' deep_tree) [] ''T'' (settings_T, new_modal))))
        ''T/A/B/f.md'') = Some ''B'' \<and>
   map_option category
     (obj_get (modal_templates (snd (scanFolder (TFolder ''T'' ''T'' deep_tree) [] ''T'' (settings_T, new_modal))))
        ''T/A/B/f.md'') \<noteq> Some (outermost [''A'', ''B''])"
  by (simp add: deep_tree_def outermost_def settings_T_def new_modal_def obj_get_def)

section \<open>Properties of the Selection Cursor\<close>




































section \<open>Properties of the Category/Template Index\<close>

text \<open>
  The sort of the build step, which both variants share: for an index with distinct keys
  and a collation that is total and transitive, the sorted categories are the empty
  (uncategorized) label first, when the index has it, and then the other labels, each
  once, in the order of the collation.
\<close>

lemma set_insortBy: "set (insortBy cmp x xs) = insert x (set xs)"
  by (induction xs) auto

lemma set_sortBy: "set (sortBy cmp xs) = set xs"
  by (induction xs) (simp_all add: sortBy_def set_insortBy)

lemma insortBy_cong:
  "(\<And>y. y \<in> set xs \<Longrightarrow> cmp x y = cmp' x y) \<Longrightarrow> insortBy cmp x xs = insortBy cmp' x xs"
  by (induction xs) auto

lemma sortBy_cong:
  "(\<And>x y. x \<in> set xs \<Longrightarrow> y \<in> set xs \<Longrightarrow> cmp x y = cmp' x y) \<Longrightarrow>
   sortBy cmp xs = sortBy cmp' xs"
proof (induction xs)
  case Nil
  then show ?case by (simp add: sortBy_def)
next
  case (Cons x xs)
  have IH: "sortBy cmp xs = sortBy cmp' xs" using Cons by simp
  have "insortBy cmp x (sortBy cmp' xs) = insortBy cmp' x (sortBy cmp' xs)"
    using Cons.prems by (intro insortBy_cong) (simp add: set_sortBy)
  then show ?case using IH by (simp add: sortBy_def)
qed

lemma sortBy_Cons: "sortBy cmp (x # xs) = insortBy cmp x (sortBy cmp xs)"
  by (simp add: sortBy_def)

lemma sortCategories_uncategorized_first:
  assumes "distinct keys"
  shows "sortBy (categoryCompare h) keys =
     (if [] \<in> set keys then [[]] else []) @
     sortBy (localeCompare h) (filter (\<lambda>k. k \<noteq> []) keys)"
  using assms
proof (induction keys)
  case Nil
  then show ?case by (simp add: sortBy_def)
next
  case (Cons k ks)
  define S where "S = sortBy (localeCompare h) (filter (\<lambda>k. k \<noteq> []) ks)"
  have S: "[] \<notin> set S" by (simp add: S_def set_sortBy)
  have IH: "sortBy (categoryCompare h) ks = (if [] \<in> set ks then [[]] else []) @ S"
    using Cons by (simp add: S_def)
  show ?case
  proof (cases "k = []")
    case True
    with Cons.prems have "[] \<notin> set ks" by simp
    with IH have "sortBy (categoryCompare h) ks = S" by simp
    moreover have "insortBy (categoryCompare h) [] S = [] # S"
      by (cases S) (simp_all add: categoryCompare_def)
    ultimately show ?thesis using True by (simp add: sortBy_Cons S_def)
  next
    case False
    have same: "insortBy (categoryCompare h) k S = insortBy (localeCompare h) k S"
      using False S by (intro insortBy_cong) (auto simp: categoryCompare_def)
    show ?thesis
    proof (cases "[] \<in> set ks")
      case True
      then have "sortBy (categoryCompare h) (k # ks) = insortBy (categoryCompare h) k ([] # S)"
        using IH by (simp add: sortBy_Cons)
      also have "\<dots> = [] # insortBy (categoryCompare h) k S"
        using False by (simp add: categoryCompare_def)
      finally show ?thesis using True False same by (simp add: sortBy_Cons S_def)
    next
      case no: False
      then show ?thesis using IH False same by (simp add: sortBy_Cons S_def)
    qed
  qed
qed

lemma insortBy_sorted:
  assumes tot: "\<And>a b. cmp a b \<le> 0 \<or> cmp b a \<le> 0"
    and trans: "\<And>a b c. cmp a b \<le> 0 \<Longrightarrow> cmp b c \<le> 0 \<Longrightarrow> cmp a c \<le> 0"
  shows "sorted_wrt (\<lambda>a b. cmp a b \<le> 0) xs \<Longrightarrow> sorted_wrt (\<lambda>a b. cmp a b \<le> 0) (insortBy cmp x xs)"
proof (induction xs)
  case Nil
  then show ?case by simp
next
  case (Cons y ys)
  show ?case
  proof (cases "cmp x y \<le> 0")
    case True
    then have "\<forall>z \<in> set ys. cmp x z \<le> 0" using Cons.prems trans by auto
    with True Cons.prems show ?thesis by simp
  next
    case False
    then have "cmp y x \<le> 0" using tot [of x y] by simp
    with False Cons show ?thesis by (auto simp: set_insortBy)
  qed
qed

lemma sortBy_sorted:
  assumes tot: "\<And>a b. cmp a b \<le> 0 \<or> cmp b a \<le> 0"
    and trans: "\<And>a b c. cmp a b \<le> 0 \<Longrightarrow> cmp b c \<le> 0 \<Longrightarrow> cmp a c \<le> 0"
  shows "sorted_wrt (\<lambda>a b. cmp a b \<le> 0) (sortBy cmp xs)"
proof (induction xs)
  case Nil
  then show ?case by (simp add: sortBy_def)
next
  case (Cons x xs)
  then show ?case using insortBy_sorted [of cmp "sortBy cmp xs" x] tot trans
    by (simp add: sortBy_Cons)
qed

lemma distinct_insortBy: "distinct xs \<Longrightarrow> x \<notin> set xs \<Longrightarrow> distinct (insortBy cmp x xs)"
  by (induction xs) (auto simp: set_insortBy)

lemma distinct_sortBy: "distinct xs \<Longrightarrow> distinct (sortBy cmp xs)"
  by (induction xs) (simp_all add: sortBy_Cons distinct_insortBy set_sortBy, simp add: sortBy_def)

lemma Object_keys_distinct: "distinct (map fst obj) \<Longrightarrow> distinct (Object_keys obj)"
  by (auto simp: Object_keys_def Let_def distinct_map_filter)

lemma sortCategories_order:
  assumes "distinct (map fst ct)"
    and tot: "\<And>a b. localeCompare h a b \<le> 0 \<or> localeCompare h b a \<le> 0"
    and trans: "\<And>a b c. localeCompare h a b \<le> 0 \<Longrightarrow> localeCompare h b c \<le> 0 \<Longrightarrow>
        localeCompare h a c \<le> 0"
  shows "\<exists>rest. sortCategories h ct = (if [] \<in> fst ` set ct then [[]] else []) @ rest \<and>
     set rest = fst ` set ct - {[]} \<and> distinct rest \<and>
     sorted_wrt (\<lambda>a b. localeCompare h a b \<le> 0) rest"
proof -
  define keys where "keys = Object_keys ct"
  define rest where "rest = sortBy (localeCompare h) (filter (\<lambda>k. k \<noteq> []) keys)"
  have d: "distinct keys" using assms(1) by (simp add: keys_def Object_keys_distinct)
  have s: "set keys = fst ` set ct" by (simp add: keys_def Object_keys_set)
  have "sortCategories h ct = (if [] \<in> set keys then [[]] else []) @ rest"
    using sortCategories_uncategorized_first [OF d, of h]
    by (simp add: sortCategories_def keys_def rest_def)
  moreover have "set rest = fst ` set ct - {[]}"
    using s by (auto simp: rest_def set_sortBy)
  moreover have "sorted_wrt (\<lambda>a b. localeCompare h a b \<le> 0) rest"
    unfolding rest_def using tot trans by (rule sortBy_sorted)
  moreover have "distinct rest"
    unfolding rest_def using d by (intro distinct_sortBy) simp
  ultimately show ?thesis using s by auto
qed

text \<open>
  C4. The template folder lists the folder \<open>B\<close> before the folder \<open>A\<close>; the collation is
  taken to put \<open>A\<close> before \<open>B\<close>. In \<open>src/main.ts\<close> the build step and the render step sort
  the categories to \<open>A\<close>, \<open>B\<close> and select the template of \<open>A\<close> at cursor (0, 0), while the
  two moves walk the keys of the index in insertion order, \<open>B\<close>, \<open>A\<close>: the first press of
  the right arrow sets the cursor to (1, 0), the card of \<open>b.md\<close> on the page, and leaves
  \<open>a.md\<close> selected. The newer variant stores the sorted list once, renders and moves by
  it, and the same press selects \<open>b.md\<close>.
\<close>

theorem main_navigation_walks_unsorted_keys:
  "map_option (\<lambda>m. sortCategories quiet_host (categorizedTemplates m))
     (loaded (loadTemplates_main quiet_host (vault_BA, new_modal))) = Some [''A'', ''B''] \<and>
   map_option (renderTemplateList_main quiet_host vault_BA)
     (loaded (loadTemplates_main quiet_host (vault_BA, new_modal))) =
     Some [(0, 0, ''T/A/a.md''), (1, 0, ''T/B/b.md'')] \<and>
   map_option (\<lambda>m. Object_keys (categorizedTemplates m))
     (loaded (loadTemplates_main quiet_host (vault_BA, new_modal))) = Some [''B'', ''A''] \<and>
   map_option cursor (loaded (loadTemplates_main quiet_host (vault_BA, new_modal))) =
     Some (0, 0, Some ''T/A/a.md'') \<and>
   map_option (\<lambda>m. cursor (press_main ArrowRight m))
     (loaded (loadTemplates_main quiet_host (vault_BA, new_modal))) =
     Some (1, 0, Some ''T/A/a.md'') \<and>
   map_option (\<lambda>m. (sortedCategories m, renderTemplateList vault_BA m))
     (loaded (loadTemplates quiet_host (vault_BA, new_modal))) =
     Some ([''A'', ''B''], [(0, 0, ''T/A/a.md''), (1, 0, ''T/B/b.md'')]) \<and>
   map_option (\<lambda>m. cursor (press ArrowRight m))
     (loaded (loadTemplates quiet_host (vault_BA, new_modal))) =
     Some (1, 0, Some ''T/B/b.md'')"
proof (intro conjI)
  show "map_option (\<lambda>m. sortCategories quiet_host (categorizedTemplates m))
     (loaded (loadTemplates_main quiet_host (vault_BA, new_modal))) = Some [''A'', ''B'']"
    by code_simp
  show "map_option (renderTemplateList_main quiet_host vault_BA)
     (loaded (loadTemplates_main quiet_host (vault_BA, new_modal))) =
     Some [(0, 0, ''T/A/a.md''), (1, 0, ''T/B/b.md'')]"
    by code_simp
  show "map_option (\<lambda>m. Object_keys (categorizedTemplates m))
     (loaded (loadTemplates_main quiet_host (vault_BA, new_modal))) = Some [''B'', ''A'']"
    by code_simp
  show "map_option cursor (loaded (loadTemplates_main quiet_host (vault_BA, new_modal))) =
     Some (0, 0, Some ''T/A/a.md'')"
    by code_simp
  show "map_option (\<lambda>m. cursor (press_main ArrowRight m))
     (loaded (loadTemplates_main quiet_host (vault_BA, new_modal))) =
     Some (1, 0, Some ''T/A/a.md'')"
    by code_simp
  show "map_option (\<lambda>m. (sortedCategories m, renderTemplateList vault_BA m))
     (loaded (loadTemplates quiet_host (vault_BA, new_modal))) =
     Some ([''A'', ''B''], [(0, 0, ''T/A/a.md''), (1, 0, ''T/B/b.md'')])"
    by code_simp
  show "map_option (\<lambda>m. cursor (press ArrowRight m))
     (loaded (loadTemplates quiet_host (vault_BA, new_modal))) =
     Some (1, 0, Some ''T/B/b.md'')"
    by code_simp
qed

end
